theory Spec2Isabelle
  imports Complex_Main
begin

section \<open>Python values, text and exceptions\<close>

text \<open>
  Text is modelled as \<open>string\<close>: a list of characters with code points 0 to 255, which
  covers the Spanish text the application handles (\<open>CHR 0xE1\<close> is a-acute and so on).
  Floats are modelled as real numbers. A dynamically typed argument is a \<open>pyval\<close>.
\<close>

datatype pyval = PyNone | PyStr string | PyInt int

datatype exn = TranslationError | ScorerError | OSError | KeyError | ValueError | TypeError

text \<open>Python truthiness (\<open>not x\<close> is its negation) and \<open>isinstance(x, str)\<close>.\<close>

fun truthy :: "pyval \<Rightarrow> bool" where
  "truthy PyNone = False"
| "truthy (PyStr s) = (s \<noteq> [])"
| "truthy (PyInt n) = (n \<noteq> 0)"

fun is_str :: "pyval \<Rightarrow> bool" where
  "is_str (PyStr s) = True"
| "is_str v = False"

text \<open>\<open>x or ''\<close>\<close>

definition or_empty :: "pyval \<Rightarrow> pyval" where
  "or_empty v = (if truthy v then v else PyStr [])"

text \<open>\<open>str.lower\<close> on code points below 256: A-Z and the accented capitals move by 32.\<close>

definition lower_char :: "char \<Rightarrow> char" where
  "lower_char c =
     (let n = (of_char c :: nat)
      in if (65 \<le> n \<and> n \<le> 90) \<or> (192 \<le> n \<and> n \<le> 222 \<and> n \<noteq> 215)
         then char_of (n + 32) else c)"

definition lower :: "string \<Rightarrow> string" where
  "lower s = map lower_char s"

text \<open>\<open>str.isspace\<close> for one character, as \<open>str.split()\<close> and the regex class \<open>\s\<close> use it.\<close>

definition isspace :: "char \<Rightarrow> bool" where
  "isspace c =
     (let n = (of_char c :: nat)
      in (9 \<le> n \<and> n \<le> 13) \<or> (28 \<le> n \<and> n \<le> 32) \<or> n = 133 \<or> n = 160)"

text \<open>\<open>str.split()\<close> with no argument: the maximal runs of non-whitespace characters.\<close>

fun split_acc :: "string \<Rightarrow> string \<Rightarrow> string list" where
  "split_acc cur [] = (if cur = [] then [] else [cur])"
| "split_acc cur (c # cs) =
     (if isspace c
      then (if cur = [] then split_acc [] cs else cur # split_acc [] cs)
      else split_acc (cur @ [c]) cs)"

definition split :: "string \<Rightarrow> string list" where
  "split s = split_acc [] s"

text \<open>\<open>w in s\<close> for two strings: \<open>w\<close> occurs in \<open>s\<close> as a contiguous substring.\<close>

fun startswith :: "string \<Rightarrow> string \<Rightarrow> bool" where
  "startswith s [] = True"
| "startswith [] (w # ws) = False"
| "startswith (c # cs) (w # ws) = (c = w \<and> startswith cs ws)"

fun str_in :: "string \<Rightarrow> string \<Rightarrow> bool" where
  "str_in w [] = (w = [])"
| "str_in w (c # cs) = (startswith (c # cs) w \<or> str_in w cs)"

section \<open>app.py: normalizer and classifier\<close>

definition palabras_es :: "string list" where
  "palabras_es = [''el'', ''la'', ''los'', ''las'', ''es'', ''en'', ''y'', ''de'', ''que'', ''se'']"

definition tiene_espanol :: "string \<Rightarrow> bool" where
  "tiene_espanol texto = list_ex (\<lambda>palabra. str_in palabra (lower texto)) palabras_es"

text \<open>
  \<open>traducir_es_en\<close>. The translator is the external capability: it returns the translated
  text or raises. \<open>traducir_body\<close> is the body of the \<open>try\<close>: its first component is the
  value returned or the exception raised, its second lists the texts handed to the
  translator, so that "translation was invoked" is a property of the result.
  \<open>traducir_es_en\<close> adds the \<open>except Exception\<close> handler, which returns \<open>texto\<close>.
\<close>

fun traducir_body :: "(string \<Rightarrow> exn + string) \<Rightarrow> pyval \<Rightarrow> (exn + pyval) \<times> string list" where
  "traducir_body tr (PyStr texto) =
     (if texto = [] then (Inr (PyStr texto), [])
      else if tiene_espanol texto \<and> length (split texto) > 1
      then (case tr texto of
              Inr t \<Rightarrow> (Inr (PyStr t), [texto])
            | Inl ex \<Rightarrow> (Inl ex, [texto]))
      else (Inr (PyStr texto), []))"
| "traducir_body tr v = (Inr v, [])"

definition traducir_es_en :: "(string \<Rightarrow> exn + string) \<Rightarrow> pyval \<Rightarrow> (exn + pyval) \<times> string list" where
  "traducir_es_en tr texto =
     (case traducir_body tr texto of
        (Inr v, calls) \<Rightarrow> (Inr v, calls)
      | (Inl ex, calls) \<Rightarrow> (Inr texto, calls))"

definition clasificar_sentimiento :: "real \<Rightarrow> string" where
  "clasificar_sentimiento compound =
     (if compound \<ge> 5 / 100 then ''Positivo''
      else if compound \<le> - (5 / 100) then ''Negativo''
      else ''Neutro'')"

section \<open>app.py: the scores of one comment\<close>

text \<open>The four scores of the external lexicon scorer (\<open>analyzer.polarity_scores\<close>).\<close>

record scores =
  v_neg :: real
  v_neu :: real
  v_pos :: real
  v_compound :: real

text \<open>The dictionary returned by \<open>analizar_sentimiento\<close>.\<close>

record resultado =
  comentario_original :: pyval
  comentario_traducido :: pyval
  r_neg :: real
  r_neu :: real
  r_pos :: real
  r_compound :: real
  r_sentimiento :: string

section \<open>The table, the file behind it and the collaborators\<close>

text \<open>
  A cell as \<open>pd.read_csv\<close> returns it: missing (NaN), an int64 integer, a float or a
  string. A row gives the cell of each column by name; a column it does not list holds
  NaN, as in a row that \<open>pd.concat\<close> pads. The table type leaves the rows open, so that
  it also serves for the records of the data model further down.
\<close>

datatype cell = CNaN | CInt int | CFloat real | CStr string

type_synonym fila = "(string \<times> cell) list"

record 'r dataframe =
  columns :: "string list"
  rows :: "'r list"

text \<open>
  The file \<open>data/comentarios.csv\<close>: absent, of size 0, of positive size but rejected by
  \<open>pd.read_csv\<close>, or a CSV file, identified with the table \<open>pd.read_csv\<close> reads from it.
  \<open>writable\<close> says whether opening the file for writing succeeds.
\<close>

datatype 'r file_state = Absent | EmptyFile | Unparseable | Csv "'r dataframe"

record 'r store =
  writable :: bool
  csv_file :: "'r file_state"

text \<open>
  The collaborators the pipeline consumes: the translator and the scorer (either may
  raise), the clock, already formatted by \<open>strftime\<close>, and the libraries under the table:
  \<open>reread\<close> is what \<open>pd.read_csv\<close> returns for the file that \<open>df.to_csv\<close> wrote for a table
  (\<open>None\<close> when it raises), \<open>disk_fault\<close> is the state in which a write that fails after
  the file was opened leaves the file (\<open>None\<close> when no such failure happens), and
  \<open>mean_object\<close> is \<open>Series.mean\<close> on a column that holds a string, which differs between
  versions of the library.
\<close>

record env =
  translate :: "string \<Rightarrow> exn + string"
  polarity_scores :: "string \<Rightarrow> exn + scores"
  now :: string
  reread :: "fila dataframe \<Rightarrow> fila dataframe option"
  disk_fault :: "fila file_state option"
  mean_object :: "cell list \<Rightarrow> exn + cell"

section \<open>app.py: the analysis of one comment\<close>

definition neutral_result :: "pyval \<Rightarrow> resultado" where
  "neutral_result c =
     \<lparr>comentario_original = c, comentario_traducido = c,
      r_neg = 0, r_neu = 1, r_pos = 0, r_compound = 0, r_sentimiento = ''Neutro''\<rparr>"

text \<open>
  Scoring the translated text; a value that is not a string makes the scorer raise.
\<close>

fun score_text :: "env \<Rightarrow> pyval \<Rightarrow> exn + scores" where
  "score_text e (PyStr t) = polarity_scores e t"
| "score_text e v = Inl ScorerError"

text \<open>The body of the \<open>try\<close> of \<open>analizar_sentimiento\<close>, then the function with its handler.\<close>

definition analizar_body :: "env \<Rightarrow> pyval \<Rightarrow> exn + resultado" where
  "analizar_body e comentario =
     (if \<not> truthy comentario \<or> \<not> is_str comentario
      then Inr (neutral_result (or_empty comentario))
      else
        (case fst (traducir_es_en (translate e) comentario) of
           Inl ex \<Rightarrow> Inl ex
         | Inr comentario_trad \<Rightarrow>
             (case score_text e comentario_trad of
                Inl ex \<Rightarrow> Inl ex
              | Inr sc \<Rightarrow>
                  Inr \<lparr>comentario_original = comentario,
                       comentario_traducido = comentario_trad,
                       r_neg = v_neg sc, r_neu = v_neu sc, r_pos = v_pos sc,
                       r_compound = v_compound sc,
                       r_sentimiento = clasificar_sentimiento (v_compound sc)\<rparr>)))"

definition analizar_sentimiento :: "env \<Rightarrow> pyval \<Rightarrow> resultado" where
  "analizar_sentimiento e comentario =
     (case analizar_body e comentario of
        Inr res \<Rightarrow> res
      | Inl ex \<Rightarrow> neutral_result comentario)"

section \<open>app.py: loading the table\<close>

definition schema :: "string list" where
  "schema = [''id'', ''fecha'', ''nombre'', ''email'', ''comentario'',
             ''sentimiento'', ''compound'', ''positivo'', ''negativo'', ''neutro'']"

text \<open>\<open>df.empty\<close>: one of the two axes has length 0.\<close>

definition df_empty :: "'r dataframe \<Rightarrow> bool" where
  "df_empty df = (columns df = [] \<or> rows df = [])"

definition cargar_dataset :: "'r store \<Rightarrow> 'r dataframe" where
  "cargar_dataset st =
     (case csv_file st of
        Csv df \<Rightarrow> df
      | Unparseable \<Rightarrow> \<lparr>columns = [], rows = []\<rparr>
      | Absent \<Rightarrow> \<lparr>columns = schema, rows = []\<rparr>
      | EmptyFile \<Rightarrow> \<lparr>columns = schema, rows = []\<rparr>)"

definition Anonimo :: string where
  "Anonimo = ''An'' @ [CHR 0xF3] @ ''nimo''"

section \<open>app.py: appending a comment\<close>

text \<open>\<open>df[k]\<close> for a column \<open>k\<close> of the table: the cells of the rows, NaN where a row has none.\<close>

definition cell_of :: "fila \<Rightarrow> string \<Rightarrow> cell" where
  "cell_of r k = (case map_of r k of Some c \<Rightarrow> c | None \<Rightarrow> CNaN)"

definition column :: "fila dataframe \<Rightarrow> string \<Rightarrow> cell list" where
  "column df k = map (\<lambda>r. cell_of r k) (rows df)"

text \<open>Two's complement wrap-around of numpy's int64 arithmetic.\<close>

definition int64 :: "int \<Rightarrow> int" where
  "int64 n = (n + 2 ^ 63) mod 2 ^ 64 - 2 ^ 63"

fun is_text :: "cell \<Rightarrow> bool" where
  "is_text (CStr s) = True"
| "is_text c = False"

fun is_int64 :: "cell \<Rightarrow> bool" where
  "is_int64 (CInt n) = (- (2 ^ 63) \<le> n \<and> n < 2 ^ 63)"
| "is_int64 c = False"

text \<open>A column of dtype int64: every cell is an integer in range.\<close>

definition int64_column :: "cell list \<Rightarrow> bool" where
  "int64_column cs = list_all is_int64 cs"

fun ints :: "cell list \<Rightarrow> int list" where
  "ints [] = []"
| "ints (CInt n # cs) = n # ints cs"
| "ints (c # cs) = ints cs"

text \<open>The numbers of a column read as floats, NaN skipped.\<close>

fun numbers :: "cell list \<Rightarrow> real list" where
  "numbers [] = []"
| "numbers (CInt n # cs) = real_of_int n # numbers cs"
| "numbers (CFloat x # cs) = x # numbers cs"
| "numbers (c # cs) = numbers cs"

text \<open>
  \<open>df['id'].max() + 1\<close> on a column with at least one cell. An int64 column gives the
  int64 sum, which wraps; a column of floats and NaN gives the float maximum plus 1, NaN
  when every cell is NaN; on a column that holds a string the maximum is a string or
  the comparison fails, and either way a TypeError is raised.
\<close>

definition max_plus_one :: "cell list \<Rightarrow> exn + cell" where
  "max_plus_one cs =
     (if list_ex is_text cs then Inl TypeError
      else if int64_column cs then Inr (CInt (int64 (Max (set (ints cs)) + 1)))
      else (case numbers cs of
              [] \<Rightarrow> Inr CNaN
            | x # xs \<Rightarrow> Inr (CFloat (Max (set (x # xs)) + 1))))"

definition nuevo_id :: "fila dataframe \<Rightarrow> exn + cell" where
  "nuevo_id df =
     (if \<not> df_empty df \<and> ''id'' \<in> set (columns df)
      then max_plus_one (column df ''id'') else Inr (CInt 1))"

definition nueva_fila :: "env \<Rightarrow> cell \<Rightarrow> string \<Rightarrow> string \<Rightarrow> string \<Rightarrow> resultado \<Rightarrow> fila" where
  "nueva_fila e i c n m res =
     [(''id'', i), (''fecha'', CStr (now e)),
      (''nombre'', CStr (if n \<noteq> [] then n else Anonimo)), (''email'', CStr m),
      (''comentario'', CStr c), (''sentimiento'', CStr (r_sentimiento res)),
      (''compound'', CFloat (r_compound res)), (''positivo'', CFloat (r_pos res)),
      (''negativo'', CFloat (r_neg res)), (''neutro'', CFloat (r_neu res))]"

text \<open>
  \<open>pd.concat([df, pd.DataFrame([fila])], ignore_index=True)\<close> for a row with the ten
  columns: the columns of \<open>df\<close>, then those of the row that \<open>df\<close> lacks. On a table read from
  a file it does not raise.
\<close>

definition concat_row :: "fila dataframe \<Rightarrow> fila \<Rightarrow> fila dataframe" where
  "concat_row df r =
     \<lparr>columns = columns df @ filter (\<lambda>c. c \<notin> set (columns df)) schema,
      rows = rows df @ [r]\<rparr>"

text \<open>The state of the file after \<open>df.to_csv\<close> has written the table \<open>df\<close> in full.\<close>

definition read_back :: "env \<Rightarrow> fila dataframe \<Rightarrow> fila file_state" where
  "read_back e df = (case reread e df of None \<Rightarrow> Unparseable | Some df' \<Rightarrow> Csv df')"

text \<open>
  \<open>df.to_csv(path)\<close>. It raises with the file untouched when the file cannot be opened;
  it raises with the file damaged when it fails after opening, which truncates; else it
  replaces the file.
\<close>

definition to_csv :: "env \<Rightarrow> fila store \<Rightarrow> fila dataframe \<Rightarrow> (exn + unit) \<times> fila store" where
  "to_csv e st df =
     (if \<not> writable st then (Inl OSError, st)
      else (case disk_fault e of
              Some damaged \<Rightarrow> (Inl OSError, st\<lparr>csv_file := damaged\<rparr>)
            | None \<Rightarrow> (Inr (), st\<lparr>csv_file := read_back e df\<rparr>)))"

text \<open>
  \<open>agregar_comentario\<close>, called with strings. It returns the store and the pair
  \<open>(success, resultado)\<close>; an exception in its body, from the id or from the write, gives
  \<open>(False, None)\<close>.
\<close>

definition agregar_comentario ::
  "env \<Rightarrow> fila store \<Rightarrow> string \<Rightarrow> string \<Rightarrow> string \<Rightarrow> fila store \<times> bool \<times> resultado option" where
  "agregar_comentario e st c n m =
     (let res = analizar_sentimiento e (PyStr c);
          df = cargar_dataset st
      in case nuevo_id df of
           Inl ex \<Rightarrow> (st, False, None)
         | Inr i \<Rightarrow>
             (case to_csv e st (concat_row df (nueva_fila e i c n m res)) of
                (Inr u, st') \<Rightarrow> (st', True, Some res)
              | (Inl ex, st') \<Rightarrow> (st', False, None)))"

section \<open>app.py: statistics\<close>

record 'm stats =
  total :: nat
  positivos :: nat
  negativos :: nat
  neutros :: nat
  promedio_compound :: 'm
  status :: string

text \<open>\<open>int(df['sentimiento'].value_counts().get(label, 0))\<close>\<close>

definition count_label :: "fila dataframe \<Rightarrow> string \<Rightarrow> nat" where
  "count_label df label = length (filter (\<lambda>c. c = CStr label) (column df ''sentimiento''))"

text \<open>
  \<open>Series.mean\<close>: the mean of the numbers of the column, NaN skipped, and NaN when there
  is none; on a column that holds a string, what the library does.
\<close>

definition mean :: "env \<Rightarrow> cell list \<Rightarrow> exn + cell" where
  "mean e cs =
     (if list_ex is_text cs then mean_object e cs
      else (case numbers cs of
              [] \<Rightarrow> Inr CNaN
            | x # xs \<Rightarrow> Inr (CFloat (sum_list (x # xs) / real (length (x # xs))))))"

text \<open>
  \<open>obtener_estadisticas\<close> on a table as \<open>pd.read_csv\<close> returns it. It has no handler: a
  missing column sentimiento and a failing mean propagate.
\<close>

definition obtener_estadisticas_raw :: "env \<Rightarrow> fila store \<Rightarrow> exn + cell stats" where
  "obtener_estadisticas_raw e st =
     (let df = cargar_dataset st
      in if df_empty df
         then Inr \<lparr>total = 0, positivos = 0, negativos = 0, neutros = 0,
                   promedio_compound = CFloat 0, status = ''empty''\<rparr>
         else if ''sentimiento'' \<notin> set (columns df) then Inl KeyError
         else (case (if ''compound'' \<in> set (columns df) then mean e (column df ''compound'')
                     else Inr (CFloat 0)) of
                 Inl ex \<Rightarrow> Inl ex
               | Inr avg \<Rightarrow>
                   Inr \<lparr>total = length (rows df),
                        positivos = count_label df ''Positivo'',
                        negativos = count_label df ''Negativo'',
                        neutros = count_label df ''Neutro'',
                        promedio_compound = avg,
                        status = ''ok''\<rparr>))"

section \<open>app.py: seed data\<close>

definition ejemplos :: "(string \<times> string) list" where
  "ejemplos =
     [(''El transporte p'' @ [CHR 0xFA] @ ''blico es muy lento en horas punta'', ''Carlos''),
      (''Los buses nuevos han mejorado bastante el servicio'', ''Ana''),
      (''Siempre hay mucha demora y desorden en los paraderos'', ''Luis''),
      (''Me gusta que ahora las unidades est'' @ [CHR 0xE9] @ ''n m'' @ [CHR 0xE1] @ ''s limpias'',
         ''Mar'' @ [CHR 0xED] @ ''a''),
      (''El pasaje es caro para la calidad del servicio'', ''Pedro''),
      (''Excelente servicio en la nueva l'' @ [CHR 0xED] @ ''nea de metro'', ''Laura''),
      (''Los conductores son muy amables y profesionales'', ''Javier''),
      (''Falta m'' @ [CHR 0xE1] @ ''s frecuencia en los horarios nocturnos'',
         ''Sof'' @ [CHR 0xED] @ ''a''),
      (''La aplicaci'' @ [CHR 0xF3] @ ''n m'' @ [CHR 0xF3] @ ''vil funciona muy bien'', ''David''),
      (''Me siento seguro viajando en el transporte p'' @ [CHR 0xFA] @ ''blico'', ''Elena'')]"


text \<open>The loop over \<open>enumerate(ejemplos)\<close>, from index \<open>i\<close> on.\<close>

fun datos :: "env \<Rightarrow> int \<Rightarrow> (string \<times> string) list \<Rightarrow> fila list" where
  "datos e i [] = []"
| "datos e i ((c, n) # rest) =
     (let res = analizar_sentimiento e (PyStr c)
      in [(''id'', CInt (i + 1)), (''fecha'', CStr (now e)), (''nombre'', CStr n),
          (''email'', CStr (lower n @ ''@ejemplo.com'')), (''comentario'', CStr c),
          (''sentimiento'', CStr (r_sentimiento res)),
          (''compound'', CFloat (r_compound res)), (''positivo'', CFloat (r_pos res)),
          (''negativo'', CFloat (r_neg res)), (''neutro'', CFloat (r_neu res))]
         # datos e (i + 1) rest)"

text \<open>\<open>inicializar_dataset\<close> has no handler: a failing write propagates.\<close>

definition inicializar_dataset :: "env \<Rightarrow> fila store \<Rightarrow> (exn + unit) \<times> fila store" where
  "inicializar_dataset e st =
     (if csv_file st = Absent \<or> csv_file st = EmptyFile
      then to_csv e st \<lparr>columns = schema, rows = datos e 0 ejemplos\<rparr>
      else (Inr (), st))"

section \<open>app.py: the routes that change the table\<close>

datatype response =
    Redirect string
  | ErrorPage string nat
  | ResultPage string string string real real real real

definition str_exn :: "exn \<Rightarrow> string" where
  "str_exn ex = (case ex of TranslationError \<Rightarrow> ''TranslationError''
     | ScorerError \<Rightarrow> ''ScorerError'' | OSError \<Rightarrow> ''OSError''
     | KeyError \<Rightarrow> ''KeyError'' | ValueError \<Rightarrow> ''ValueError''
     | TypeError \<Rightarrow> ''TypeError'')"

text \<open>\<open>str.strip()\<close>\<close>

definition strip :: "string \<Rightarrow> string" where
  "strip s = rev (dropWhile isspace (rev (dropWhile isspace s)))"

text \<open>\<open>request.form.get(key, default)\<close>\<close>

definition form_get :: "(string \<rightharpoonup> string) \<Rightarrow> string \<Rightarrow> string \<Rightarrow> string" where
  "form_get form k d = (case form k of Some v \<Rightarrow> v | None \<Rightarrow> d)"

definition submit_comment ::
  "env \<Rightarrow> fila store \<Rightarrow> (string \<rightharpoonup> string) \<Rightarrow> fila store \<times> response" where
  "submit_comment e st form =
     (let c = strip (form_get form ''comentario'' []);
          n = strip (form_get form ''nombre'' Anonimo);
          m = strip (form_get form ''email'' [])
      in if c = [] then (st, ErrorPage ''Por favor, ingresa un comentario'' 400)
         else if length c > 1000
         then (st, ErrorPage (''El comentario es demasiado largo (m'' @ [CHR 0xE1]
                              @ ''ximo 1000 caracteres)'') 400)
         else (case agregar_comentario e st c n m of
                 (st', True, Some res) \<Rightarrow>
                   (st', ResultPage c n (r_sentimiento res) (r_compound res)
                           (r_pos res) (r_neg res) (r_neu res))
               | (st', ok, ro) \<Rightarrow> (st', ErrorPage ''Error al guardar el comentario'' 500)))"

text \<open>
  \<open>df['id'] != id\<close> for one cell: an integer or a float is compared by value, a string and
  NaN differ from every integer.
\<close>

fun cell_ne :: "cell \<Rightarrow> int \<Rightarrow> bool" where
  "cell_ne (CInt n) i = (n \<noteq> i)"
| "cell_ne (CFloat x) i = (x \<noteq> real_of_int i)"
| "cell_ne c i = True"

text \<open>\<open>delete_comment\<close>; the second argument is \<open>session.get('admin_logged_in')\<close>.\<close>

definition delete_comment :: "env \<Rightarrow> bool \<Rightarrow> fila store \<Rightarrow> int \<Rightarrow> fila store \<times> response" where
  "delete_comment e logged_in st i =
     (if \<not> logged_in then (st, Redirect ''admin_login'')
      else
        (let df = cargar_dataset st
         in if \<not> df_empty df \<and> ''id'' \<in> set (columns df)
            then (case to_csv e st
                         (df\<lparr>rows := filter (\<lambda>r. cell_ne (cell_of r ''id'') i) (rows df)\<rparr>) of
                    (Inr u, st') \<Rightarrow> (st', Redirect ''admin_dashboard'')
                  | (Inl ex, st') \<Rightarrow>
                      (st', ErrorPage (''Error al eliminar: '' @ str_exn ex) 500))
            else (st, Redirect ''admin_dashboard'')))"

section \<open>smartcities_analysis.py: the second analysis entry point\<close>

definition sa_traducir_body :: "(string \<Rightarrow> exn + string) \<Rightarrow> pyval \<Rightarrow> exn + pyval" where
  "sa_traducir_body tr v =
     (case v of
        PyStr texto \<Rightarrow>
          (if texto = [] then Inr v
           else if tiene_espanol texto
           then (case tr texto of Inr t \<Rightarrow> Inr (PyStr t) | Inl ex \<Rightarrow> Inl ex)
           else Inr v)
      | _ \<Rightarrow> Inr v)"

definition sa_traducir_es_en :: "(string \<Rightarrow> exn + string) \<Rightarrow> pyval \<Rightarrow> exn + pyval" where
  "sa_traducir_es_en tr texto =
     (case sa_traducir_body tr texto of Inr v \<Rightarrow> Inr v | Inl ex \<Rightarrow> Inr texto)"

text \<open>
  \<open>limpiar_texto\<close>: lower case, drop every character outside
  \<open>[a-z0-9]\<close>, the seven accented letters and whitespace, replace each run of whitespace
  by one blank, strip.
\<close>

definition keep_char :: "char \<Rightarrow> bool" where
  "keep_char c =
     (let n = (of_char c :: nat)
      in (97 \<le> n \<and> n \<le> 122) \<or> (48 \<le> n \<and> n \<le> 57)
         \<or> n \<in> {0xE1, 0xE9, 0xED, 0xF3, 0xFA, 0xF1, 0xFC} \<or> isspace c)"

fun sub_ws :: "bool \<Rightarrow> string \<Rightarrow> string" where
  "sub_ws in_run [] = []"
| "sub_ws in_run (c # cs) =
     (if isspace c then (if in_run then sub_ws True cs else CHR '' '' # sub_ws True cs)
      else c # sub_ws False cs)"

fun limpiar_texto :: "pyval \<Rightarrow> string" where
  "limpiar_texto (PyStr texto) =
     (if texto = [] then [] else strip (sub_ws False (filter keep_char (lower texto))))"
| "limpiar_texto v = []"

definition sa_analizar_body :: "env \<Rightarrow> pyval \<Rightarrow> exn + resultado" where
  "sa_analizar_body e c =
     (if \<not> truthy c \<or> \<not> is_str c then Inl ValueError
      else
        (case sa_traducir_es_en (translate e) c of
           Inl ex \<Rightarrow> Inl ex
         | Inr comentario_trad \<Rightarrow>
             (case polarity_scores e (limpiar_texto comentario_trad) of
                Inl ex \<Rightarrow> Inl ex
              | Inr sc \<Rightarrow>
                  Inr \<lparr>comentario_original = c,
                       comentario_traducido = comentario_trad,
                       r_neg = v_neg sc, r_neu = v_neu sc, r_pos = v_pos sc,
                       r_compound = v_compound sc,
                       r_sentimiento = clasificar_sentimiento (v_compound sc)\<rparr>)))"

definition sa_analizar_sentimiento :: "env \<Rightarrow> pyval \<Rightarrow> resultado" where
  "sa_analizar_sentimiento e c =
     (case sa_analizar_body e c of
        Inr res \<Rightarrow> res
      | Inl ex \<Rightarrow> neutral_result c)"

section \<open>The data model: tables whose cells have the types of their columns\<close>

text \<open>
  A comment record of the data model, and \<open>obtener_estadisticas\<close> on a table of such
  records: the label is a string and the scores are floats in every row.
\<close>

record row =
  row_id :: int
  fecha :: string
  nombre :: string
  email :: string
  comentario :: string
  sentimiento :: string
  compound :: real
  positivo :: real
  negativo :: real
  neutro :: real

text \<open>\<open>df['sentimiento'].value_counts().get(label, 0)\<close>\<close>

definition value_count :: "row dataframe \<Rightarrow> string \<Rightarrow> nat" where
  "value_count df label = length (filter (\<lambda>r. sentimiento r = label) (rows df))"

definition mean_compound :: "row dataframe \<Rightarrow> real" where
  "mean_compound df = sum_list (map compound (rows df)) / real (length (rows df))"

definition obtener_estadisticas :: "row store \<Rightarrow> exn + real stats" where
  "obtener_estadisticas st =
     (let df = cargar_dataset st
      in if df_empty df
         then Inr \<lparr>total = 0, positivos = 0, negativos = 0, neutros = 0,
                   promedio_compound = 0, status = ''empty''\<rparr>
         else if ''sentimiento'' \<notin> set (columns df) then Inl KeyError
         else Inr \<lparr>total = length (rows df),
                   positivos = value_count df ''Positivo'',
                   negativos = value_count df ''Negativo'',
                   neutros = value_count df ''Neutro'',
                   promedio_compound =
                     (if ''compound'' \<in> set (columns df) then mean_compound df else 0),
                   status = ''ok''\<rparr>)"

text \<open>A record of the data model as the row of cells that holds it.\<close>

definition cells_of :: "row \<Rightarrow> fila" where
  "cells_of r =
     [(''id'', CInt (row_id r)), (''fecha'', CStr (fecha r)), (''nombre'', CStr (nombre r)),
      (''email'', CStr (email r)), (''comentario'', CStr (comentario r)),
      (''sentimiento'', CStr (sentimiento r)), (''compound'', CFloat (compound r)),
      (''positivo'', CFloat (positivo r)), (''negativo'', CFloat (negativo r)),
      (''neutro'', CFloat (neutro r))]"

definition cells_of_df :: "row dataframe \<Rightarrow> fila dataframe" where
  "cells_of_df df = \<lparr>columns = columns df, rows = map cells_of (rows df)\<rparr>"

definition cells_of_store :: "row store \<Rightarrow> fila store" where
  "cells_of_store st =
     \<lparr>writable = writable st,
      csv_file = (case csv_file st of
                    Absent \<Rightarrow> Absent | EmptyFile \<Rightarrow> EmptyFile | Unparseable \<Rightarrow> Unparseable
                  | Csv df \<Rightarrow> Csv (cells_of_df df))\<rparr>"

section \<open>Reachable stores and the invariant of the table\<close>

definition labels :: "string list" where
  "labels = [''Positivo'', ''Negativo'', ''Neutro'']"

fun is_float :: "cell \<Rightarrow> bool" where
  "is_float (CFloat x) = True"
| "is_float c = False"

text \<open>
  What the statistics rely on: the fixed columns (or the table without columns of a
  rejected file), a label of the classifier in every cell of the column sentimiento, a
  float in every cell of the column compound.
\<close>

definition table_ok :: "fila dataframe \<Rightarrow> bool" where
  "table_ok df =
     ((columns df = schema \<or> (columns df = [] \<and> rows df = []))
      \<and> list_all (\<lambda>c. c \<in> set (map CStr labels)) (column df ''sentimiento'')
      \<and> list_all is_float (column df ''compound''))"

text \<open>
  Collaborators under which a table with these properties is written and read back
  as a table with these properties: no write fails after the file was opened, and the
  CSV round trip of such a table gives such a table.
\<close>

definition faithful_io :: "env \<Rightarrow> bool" where
  "faithful_io e =
     (disk_fault e = None
      \<and> (\<forall>df df'. table_ok df \<and> reread e df = Some df' \<longrightarrow> table_ok df'))"

text \<open>
  The stores the pipeline produces from an absent or empty file under such
  collaborators: by seeding, by appending a comment, by a delete request, with the
  collaborators and the file permissions free to differ from one step to the next.
\<close>

inductive reachable :: "fila store \<Rightarrow> bool" where
  start: "csv_file st = Absent \<or> csv_file st = EmptyFile \<Longrightarrow> reachable st"
| seed: "reachable st \<Longrightarrow> faithful_io e \<Longrightarrow> reachable (snd (inicializar_dataset e st))"
| append: "reachable st \<Longrightarrow> faithful_io e \<Longrightarrow> reachable (fst (agregar_comentario e st c n m))"
| delete: "reachable st \<Longrightarrow> faithful_io e \<Longrightarrow> reachable (fst (delete_comment e logged_in st i))"
| chmod: "reachable st \<Longrightarrow> reachable (st\<lparr>writable := w\<rparr>)"

text \<open>The part of a \<open>resultado\<close> the two entry points are compared on.\<close>

definition verdict :: "resultado \<Rightarrow> real \<times> real \<times> real \<times> real \<times> string" where
  "verdict res = (r_neg res, r_neu res, r_pos res, r_compound res, r_sentimiento res)"

section \<open>Concrete collaborators for the examples\<close>

text \<open>
  A CSV round trip on tables whose text cells are plain words: every cell comes back as
  written, except that an empty field is read back as missing.
\<close>

definition plain_reread :: "fila dataframe \<Rightarrow> fila dataframe option" where
  "plain_reread df =
     Some (df\<lparr>rows := map (map (\<lambda>(k, c). (k, if c = CStr [] then CNaN else c))) (rows df)\<rparr>)"

text \<open>Both external services are down; the disk and the CSV library work.\<close>

definition offline_env :: env where
  "offline_env =
     \<lparr>translate = (\<lambda>t. Inl TranslationError), polarity_scores = (\<lambda>t. Inl ScorerError),
      now = ''2024-01-01 00:00:00'', reread = plain_reread, disk_fault = None,
      mean_object = (\<lambda>cs. Inl TypeError)\<rparr>"

text \<open>
  A scorer that, like the lexicon scorer, rates the emoticon \<open>:)\<close> and the word
  "excellent" as positive and text without them as neutral; a translator that knows
  two Spanish texts.
\<close>

definition lexicon_env :: env where
  "lexicon_env =
     \<lparr>translate = (\<lambda>t. if t = ''excelente'' then Inr ''excellent''
                        else if t = ''el bus'' then Inr ''the bus'' else Inr t),
      polarity_scores =
        (\<lambda>t. if str_in '':)'' t \<or> str_in ''excellent'' t
             then Inr \<lparr>v_neg = 0, v_neu = 0, v_pos = 1, v_compound = 4588 / 10000\<rparr>
             else Inr \<lparr>v_neg = 0, v_neu = 1, v_pos = 0, v_compound = 0\<rparr>),
      now = ''2024-01-01 00:00:00'', reread = plain_reread, disk_fault = None,
      mean_object = (\<lambda>cs. Inl TypeError)\<rparr>"

definition fresh_store :: "'r store" where
  "fresh_store = \<lparr>writable = True, csv_file = Absent\<rparr>"

definition two_comment_store :: "fila store" where
  "two_comment_store =
     fst (agregar_comentario offline_env
            (fst (agregar_comentario offline_env fresh_store ''a'' [] [])) ''b'' [] [])"


definition hola_form :: "string \<rightharpoonup> string" where
  "hola_form = [''comentario'' \<mapsto> ''hola'']"

text \<open>
  A comment with a carriage return in it, the table \<open>agregar_comentario\<close> writes for it
  on a fresh store, and what \<open>pd.read_csv\<close> returns when the CSV writer leaves the lone
  carriage return unquoted: the line breaks there, the first half lacks the last five
  fields, the second half is read from the first column on.
\<close>

definition cr_form :: "string \<rightharpoonup> string" where
  "cr_form = [''comentario'' \<mapsto> ''a'' @ [CHR 0x0D] @ ''b'']"

definition cr_written :: "fila dataframe" where
  "cr_written =
     \<lparr>columns = schema,
      rows = [[(''id'', CInt 1), (''fecha'', CStr ''2024-01-01 00:00:00''),
               (''nombre'', CStr Anonimo), (''email'', CStr []),
               (''comentario'', CStr (''a'' @ [CHR 0x0D] @ ''b'')),
               (''sentimiento'', CStr ''Neutro''), (''compound'', CFloat 0),
               (''positivo'', CFloat 0), (''negativo'', CFloat 0), (''neutro'', CFloat 1)]]\<rparr>"

definition cr_read :: "fila dataframe" where
  "cr_read =
     \<lparr>columns = schema,
      rows = [[(''id'', CStr ''1''), (''fecha'', CStr ''2024-01-01 00:00:00''),
               (''nombre'', CStr Anonimo), (''email'', CNaN), (''comentario'', CStr ''a''),
               (''sentimiento'', CNaN), (''compound'', CNaN), (''positivo'', CNaN),
               (''negativo'', CNaN), (''neutro'', CNaN)],
              [(''id'', CStr ''b''), (''fecha'', CStr ''Neutro''), (''nombre'', CStr ''0.0''),
               (''email'', CFloat 0), (''comentario'', CStr ''0.0''),
               (''sentimiento'', CFloat 1), (''compound'', CNaN), (''positivo'', CNaN),
               (''negativo'', CNaN), (''neutro'', CNaN)]]\<rparr>"

definition cr_reread :: "fila dataframe \<Rightarrow> fila dataframe option" where
  "cr_reread df = (if df = cr_written then Some cr_read else plain_reread df)"

definition cr_env :: env where
  "cr_env = offline_env\<lparr>reread := cr_reread\<rparr>"

text \<open>A table whose only id is the largest int64.\<close>

definition max_id_store :: "fila store" where
  "max_id_store =
     \<lparr>writable = True,
      csv_file = Csv \<lparr>columns = schema,
        rows = [[(''id'', CInt 9223372036854775807), (''fecha'', CStr ''2024-01-01 00:00:00''),
                 (''nombre'', CStr ''Ana''), (''email'', CNaN), (''comentario'', CStr ''a''),
                 (''sentimiento'', CStr ''Neutro''), (''compound'', CFloat 0),
                 (''positivo'', CFloat 0), (''negativo'', CFloat 0),
                 (''neutro'', CFloat 1)]]\<rparr>\<rparr>"

text \<open>The store after the comment with the carriage return was submitted and read back.\<close>

definition cr_store :: "fila store" where
  "cr_store = fst (submit_comment cr_env fresh_store cr_form)"

text \<open>The services are down and every write fails after truncating the file.\<close>

definition full_disk_env :: env where
  "full_disk_env = offline_env\<lparr>disk_fault := Some EmptyFile\<rparr>"

section \<open>The classifier\<close>

text \<open>
  C6. The classifier is a total function of the compound score alone, with the fixed
  thresholds: a score of at least 0.05 is Positivo, a score of at most -0.05 is
  Negativo, and every score strictly between them is Neutro; no other label is returned.
\<close>

theorem clasificar_sentimiento_thresholds:
  "(x \<ge> 5 / 100 \<longrightarrow> clasificar_sentimiento x = ''Positivo'')
   \<and> (x \<le> - (5 / 100) \<longrightarrow> clasificar_sentimiento x = ''Negativo'')
   \<and> (- (5 / 100) < x \<and> x < 5 / 100 \<longrightarrow> clasificar_sentimiento x = ''Neutro'')
   \<and> clasificar_sentimiento x \<in> set labels"
  by (simp add: clasificar_sentimiento_def labels_def)

theorem clasificar_sentimiento_thresholds_witness:
  "clasificar_sentimiento (5 / 100) = ''Positivo''
   \<and> clasificar_sentimiento (- (5 / 100)) = ''Negativo''
   \<and> clasificar_sentimiento (4999 / 100000) = ''Neutro''"
  using clasificar_sentimiento_thresholds [of "5 / 100"]
        clasificar_sentimiento_thresholds [of "- (5 / 100)"]
        clasificar_sentimiento_thresholds [of "4999 / 100000"]
  by simp

section \<open>The normalizer\<close>

lemma traducir_body_invalid:
  "\<not> truthy texto \<or> \<not> is_str texto \<Longrightarrow> traducir_body tr texto = (Inr texto, [])"
  by (cases texto) simp_all

lemma tiene_espanol_el_bus: "tiene_espanol ''el bus es lento''"
  by code_simp

lemma split_el_bus: "length (split ''el bus es lento'') = 4"
  by code_simp

text \<open>
  C8. \<open>traducir_es_en\<close> never raises: it always returns a value; when the translator
  raises on the text, the value is the original text; and an empty or non-string
  argument is returned as it is with no call of the translator.
\<close>

theorem traducir_es_en_never_raises:
  "(\<exists>v. fst (traducir_es_en tr texto) = Inr v)
   \<and> (\<forall>t ex. texto = PyStr t \<and> tr t = Inl ex \<longrightarrow> fst (traducir_es_en tr texto) = Inr texto)
   \<and> (\<not> truthy texto \<or> \<not> is_str texto \<longrightarrow> traducir_es_en tr texto = (Inr texto, []))"
proof (intro conjI allI impI)
  show "\<exists>v. fst (traducir_es_en tr texto) = Inr v"
    by (cases texto) (auto simp: traducir_es_en_def split: sum.splits prod.splits)
next
  fix t ex
  assume "texto = PyStr t \<and> tr t = Inl ex"
  then show "fst (traducir_es_en tr texto) = Inr texto"
    by (simp add: traducir_es_en_def)
next
  assume "\<not> truthy texto \<or> \<not> is_str texto"
  then show "traducir_es_en tr texto = (Inr texto, [])"
    by (simp add: traducir_es_en_def traducir_body_invalid)
qed

theorem traducir_es_en_never_raises_witness:
  "traducir_es_en (\<lambda>t. Inl TranslationError) (PyStr ''el bus es lento'')
     = (Inr (PyStr ''el bus es lento''), [''el bus es lento''])
   \<and> traducir_es_en (\<lambda>t. Inl TranslationError) PyNone = (Inr PyNone, [])
   \<and> traducir_es_en (\<lambda>t. Inl TranslationError) (PyStr []) = (Inr (PyStr []), [])
   \<and> traducir_es_en (\<lambda>t. Inl TranslationError) (PyInt 7) = (Inr (PyInt 7), [])"
  using traducir_es_en_never_raises [of "\<lambda>t. Inl TranslationError" "PyStr ''el bus es lento''"]
        traducir_es_en_never_raises [of "\<lambda>t. Inl TranslationError" PyNone]
        traducir_es_en_never_raises [of "\<lambda>t. Inl TranslationError" "PyStr []"]
        traducir_es_en_never_raises [of "\<lambda>t. Inl TranslationError" "PyInt 7"]
  by (simp add: traducir_es_en_def tiene_espanol_el_bus split_el_bus)

lemma tiene_espanol_great_service: "tiene_espanol ''great service''"
  by code_simp

lemma split_great_service: "split ''great service'' = [''great'', ''service'']"
  by code_simp

lemma lower_great_service: "lower ''great service'' = ''great service''"
  by code_simp

text \<open>
  C3. The stop words are searched as substrings of the lower-cased text, not compared
  with its tokens: for the text "great service", whose tokens are "great" and "service"
  and so contain no stop word, the translator is called all the same (the stop word
  "se" occurs inside "service"), whatever the translator does.
\<close>

theorem traducir_es_en_matches_substrings:
  "snd (traducir_es_en tr (PyStr ''great service'')) = [''great service'']
   \<and> filter (\<lambda>t. t \<in> set palabras_es) (split (lower ''great service'')) = []"
  by (cases "tr ''great service''")
     (simp_all add: traducir_es_en_def tiene_espanol_great_service split_great_service
        lower_great_service palabras_es_def)

section \<open>Loading the table\<close>

text \<open>
  C5. \<open>cargar_dataset\<close> on a file that \<open>pd.read_csv\<close> rejects returns the table with no
  rows and no columns, which is not the fixed schema; on an absent file and on a file
  of size 0 it returns the table with no rows and the ten columns of the schema.
\<close>

theorem cargar_dataset_unparseable_no_schema:
  "cargar_dataset \<lparr>writable = w, csv_file = Unparseable\<rparr> = \<lparr>columns = [], rows = []\<rparr>
   \<and> columns (cargar_dataset \<lparr>writable = w, csv_file = Unparseable\<rparr>) \<noteq> schema
   \<and> cargar_dataset \<lparr>writable = w, csv_file = Absent\<rparr> = \<lparr>columns = schema, rows = []\<rparr>
   \<and> cargar_dataset \<lparr>writable = w, csv_file = EmptyFile\<rparr> = \<lparr>columns = schema, rows = []\<rparr>"
  by (simp add: cargar_dataset_def schema_def)

section \<open>The invariant of the table\<close>

lemma analizar_label: "r_sentimiento (analizar_sentimiento e c) \<in> set labels"
  by (auto simp: analizar_sentimiento_def analizar_body_def neutral_result_def labels_def
        clasificar_sentimiento_def split: sum.splits)

lemma column_concat_row: "column (concat_row df r) k = column df k @ [cell_of r k]"
  by (simp add: column_def concat_row_def)

lemma columns_concat_row:
  "columns df = schema \<or> columns df = [] \<Longrightarrow> columns (concat_row df r) = schema"
  by (auto simp: concat_row_def)

lemma nueva_fila_cells:
  "cell_of (nueva_fila e i c n m res) ''id'' = i"
  "cell_of (nueva_fila e i c n m res) ''sentimiento'' = CStr (r_sentimiento res)"
  "cell_of (nueva_fila e i c n m res) ''compound'' = CFloat (r_compound res)"
  by (simp_all add: nueva_fila_def cell_of_def)

lemma table_ok_no_columns: "table_ok \<lparr>columns = [], rows = []\<rparr>"
  by (simp add: table_ok_def column_def)

lemma table_ok_no_rows: "table_ok \<lparr>columns = schema, rows = []\<rparr>"
  by (simp add: table_ok_def column_def)

lemma table_ok_concat:
  assumes "table_ok df"
  shows "table_ok (concat_row df (nueva_fila e i c n m (analizar_sentimiento e v)))"
proof -
  have "columns df = schema \<or> columns df = []" using assms by (auto simp: table_ok_def)
  then have "columns (concat_row df (nueva_fila e i c n m (analizar_sentimiento e v))) = schema"
    by (rule columns_concat_row)
  moreover have "CStr (r_sentimiento (analizar_sentimiento e v)) \<in> set (map CStr labels)"
    using analizar_label [of e v] by simp
  ultimately show ?thesis
    using assms by (simp add: table_ok_def column_concat_row nueva_fila_cells)
qed

lemma table_ok_filter:
  assumes "table_ok df"
  shows "table_ok (df\<lparr>rows := filter P (rows df)\<rparr>)"
proof -
  have "list_all Q (map f (filter P xs))" if "list_all Q (map f xs)" for Q f and xs :: "fila list"
    using that by (induction xs) auto
  then show ?thesis using assms by (auto simp: table_ok_def column_def)
qed

lemma datos_cells:
  "list_all (\<lambda>r. cell_of r ''sentimiento'' \<in> set (map CStr labels)
                \<and> is_float (cell_of r ''compound'')) (datos e i xs)"
proof (induction e i xs rule: datos.induct)
  case (1 e i)
  show ?case by simp
next
  case (2 e i c n rest)
  have "CStr (r_sentimiento (analizar_sentimiento e (PyStr c))) \<in> set (map CStr labels)"
    using analizar_label [of e "PyStr c"] by simp
  then show ?case using 2 by (simp add: Let_def cell_of_def)
qed

lemma table_ok_datos: "table_ok \<lparr>columns = schema, rows = datos e i xs\<rparr>"
  using datos_cells [of e i xs] by (simp add: table_ok_def column_def list_all_iff)

lemma to_csv_table_ok:
  assumes "faithful_io e" and "table_ok (cargar_dataset st)" and "table_ok df"
  shows "table_ok (cargar_dataset (snd (to_csv e st df)))"
proof (cases "writable st")
  case False
  then show ?thesis using assms(2) by (simp add: to_csv_def)
next
  case True
  have nf: "disk_fault e = None" using assms(1) by (simp add: faithful_io_def)
  show ?thesis
  proof (cases "reread e df")
    case None
    then show ?thesis
      using True nf by (simp add: to_csv_def read_back_def cargar_dataset_def table_ok_no_columns)
  next
    case (Some df')
    then have "table_ok df'" using assms(1,3) by (auto simp: faithful_io_def)
    then show ?thesis
      using True nf Some by (simp add: to_csv_def read_back_def cargar_dataset_def)
  qed
qed

lemma agregar_comentario_store:
  "nuevo_id (cargar_dataset st) = Inr i \<Longrightarrow>
   fst (agregar_comentario e st c n m)
     = snd (to_csv e st (concat_row (cargar_dataset st)
              (nueva_fila e i c n m (analizar_sentimiento e (PyStr c)))))"
  by (cases "to_csv e st (concat_row (cargar_dataset st)
              (nueva_fila e i c n m (analizar_sentimiento e (PyStr c))))")
     (auto simp: agregar_comentario_def Let_def split: sum.splits)

lemma delete_comment_store:
  "\<not> df_empty (cargar_dataset st) \<and> ''id'' \<in> set (columns (cargar_dataset st)) \<Longrightarrow>
   fst (delete_comment e True st i)
     = snd (to_csv e st ((cargar_dataset st)
              \<lparr>rows := filter (\<lambda>r. cell_ne (cell_of r ''id'') i) (rows (cargar_dataset st))\<rparr>))"
  by (cases "to_csv e st ((cargar_dataset st)
              \<lparr>rows := filter (\<lambda>r. cell_ne (cell_of r ''id'') i) (rows (cargar_dataset st))\<rparr>)")
     (auto simp: delete_comment_def Let_def split: sum.splits)

lemma agregar_comentario_table_ok:
  assumes "faithful_io e" and "table_ok (cargar_dataset st)"
  shows "table_ok (cargar_dataset (fst (agregar_comentario e st c n m)))"
proof (cases "nuevo_id (cargar_dataset st)")
  case (Inl ex)
  then show ?thesis using assms(2) by (simp add: agregar_comentario_def Let_def)
next
  case (Inr i)
  let ?df = "concat_row (cargar_dataset st)
               (nueva_fila e i c n m (analizar_sentimiento e (PyStr c)))"
  have "table_ok ?df" using assms(2) by (rule table_ok_concat)
  then have "table_ok (cargar_dataset (snd (to_csv e st ?df)))"
    using assms by (intro to_csv_table_ok)
  then show ?thesis
    using Inr by (simp add: agregar_comentario_store)
qed

lemma delete_comment_table_ok:
  assumes "faithful_io e" and "table_ok (cargar_dataset st)"
  shows "table_ok (cargar_dataset (fst (delete_comment e logged_in st i)))"
proof -
  let ?df = "(cargar_dataset st)\<lparr>rows := filter (\<lambda>r. cell_ne (cell_of r ''id'') i)
                                           (rows (cargar_dataset st))\<rparr>"
  have "table_ok ?df" using assms(2) by (rule table_ok_filter)
  then have "table_ok (cargar_dataset (snd (to_csv e st ?df)))"
    using assms by (intro to_csv_table_ok)
  then show ?thesis
    using assms(2) delete_comment_store [of st e i]
    by (cases logged_in) (auto simp: delete_comment_def Let_def)
qed

lemma inicializar_dataset_table_ok:
  assumes "faithful_io e" and "table_ok (cargar_dataset st)"
  shows "table_ok (cargar_dataset (snd (inicializar_dataset e st)))"
  using assms to_csv_table_ok [OF assms table_ok_datos [of e 0 ejemplos]]
  by (simp add: inicializar_dataset_def)

lemma reachable_table_ok: "reachable st \<Longrightarrow> table_ok (cargar_dataset st)"
proof (induction rule: reachable.induct)
  case (start st)
  then show ?case by (auto simp: cargar_dataset_def table_ok_no_rows)
next
  case (seed st e)
  then show ?case by (simp add: inicializar_dataset_table_ok)
next
  case (append st e c n m)
  then show ?case by (simp add: agregar_comentario_table_ok)
next
  case (delete st e logged_in i)
  then show ?case by (simp add: delete_comment_table_ok)
next
  case (chmod st w)
  then show ?case by (simp add: cargar_dataset_def)
qed

lemma count_labels:
  "list_all (\<lambda>c. c \<in> set (map CStr labels)) cs \<Longrightarrow>
   length (filter (\<lambda>c. c = CStr ''Positivo'') cs)
   + length (filter (\<lambda>c. c = CStr ''Negativo'') cs)
   + length (filter (\<lambda>c. c = CStr ''Neutro'') cs) = length cs"
  by (induction cs) (auto simp: labels_def)

lemma mean_of_floats: "list_all is_float cs \<Longrightarrow> \<exists>avg. mean e cs = Inr avg"
proof -
  assume a: "list_all is_float cs"
  have "\<not> list_ex is_text cs"
    using a by (induction cs) (auto elim: is_float.elims)
  then show ?thesis by (simp add: mean_def split: list.splits)
qed

lemma plain_reread_column:
  "plain_reread df = Some df' \<Longrightarrow>
   columns df' = columns df
   \<and> column df' k = map (\<lambda>c. if c = CStr [] then CNaN else c) (column df k)"
proof -
  have "cell_of (map (\<lambda>(k, c). (k, if c = CStr [] then CNaN else c)) r) k
        = (if cell_of r k = CStr [] then CNaN else cell_of r k)" for r :: fila
    by (induction r) (auto simp: cell_of_def)
  then show "plain_reread df = Some df' \<Longrightarrow> ?thesis"
    by (auto simp: plain_reread_def column_def)
qed

lemma plain_reread_table_ok:
  assumes "table_ok df" and "plain_reread df = Some df'"
  shows "table_ok df'"
proof -
  have c: "columns df' = columns df"
    and s: "column df' ''sentimiento''
            = map (\<lambda>c. if c = CStr [] then CNaN else c) (column df ''sentimiento'')"
    and f: "column df' ''compound''
            = map (\<lambda>c. if c = CStr [] then CNaN else c) (column df ''compound'')"
    using plain_reread_column [OF assms(2)] by simp_all
  have r: "rows df = [] \<Longrightarrow> rows df' = []" using assms(2) by (auto simp: plain_reread_def)
  have s': "list_all (\<lambda>c. c \<in> set (map CStr labels)) (column df' ''sentimiento'')"
    using assms(1) unfolding s table_ok_def by (auto simp: list_all_iff labels_def)
  have f': "list_all is_float (column df' ''compound'')"
    using assms(1) unfolding f table_ok_def by (auto simp: list_all_iff)
  show ?thesis using assms(1) c r s' f' by (auto simp: table_ok_def)
qed

lemma faithful_io_offline: "faithful_io offline_env"
  using plain_reread_table_ok by (auto simp: faithful_io_def offline_env_def)

lemma int64_in_range: "- (2 ^ 63) \<le> n \<Longrightarrow> n < 2 ^ 63 \<Longrightarrow> int64 n = n"
  by (simp add: int64_def)

lemma int64_overflow: "int64 (2 ^ 63 - 1 + 1) = - (2 ^ 63)"
  by (simp add: int64_def)

lemma int64_column_ints:
  "int64_column cs \<Longrightarrow> map CInt (ints cs) = cs \<and> list_all (\<lambda>n. - (2 ^ 63) \<le> n \<and> n < 2 ^ 63) (ints cs)"
proof (induction cs)
  case Nil
  show ?case by simp
next
  case (Cons c cs)
  then show ?case by (cases c) (auto simp: int64_column_def)
qed

lemma int64_column_no_text: "int64_column cs \<Longrightarrow> \<not> list_ex is_text cs"
  by (induction cs) (auto simp: int64_column_def elim: is_int64.elims)

lemma max_plus_one_int64:
  assumes "int64_column cs" and "cs \<noteq> []"
  shows "max_plus_one cs = Inr (CInt (int64 (Max (set (ints cs)) + 1)))"
    and "- (2 ^ 63) \<le> Max (set (ints cs))" and "Max (set (ints cs)) < 2 ^ 63"
    and "list_all (\<lambda>n. n \<le> Max (set (ints cs))) (ints cs)"
proof -
  show "max_plus_one cs = Inr (CInt (int64 (Max (set (ints cs)) + 1)))"
    using assms(1) by (simp add: max_plus_one_def int64_column_no_text)
  have ne: "ints cs \<noteq> []" using int64_column_ints [OF assms(1)] assms(2) by auto
  then have "Max (set (ints cs)) \<in> set (ints cs)" by (intro Max_in) simp_all
  then show "- (2 ^ 63) \<le> Max (set (ints cs))" and "Max (set (ints cs)) < 2 ^ 63"
    using int64_column_ints [OF assms(1)] by (auto simp: list_all_iff)
  show "list_all (\<lambda>n. n \<le> Max (set (ints cs))) (ints cs)"
    by (simp add: list_all_iff)
qed

lemma two_ids: "column (cargar_dataset two_comment_store) ''id'' = [CInt 1, CInt 2]"
  by code_simp
lemma two_cols: "columns (cargar_dataset two_comment_store) = schema"
  by code_simp
lemma two_writable: "writable two_comment_store"
  by code_simp
lemma max_ids: "column (cargar_dataset max_id_store) ''id'' = [CInt (2 ^ 63 - 1)]"
  by code_simp
lemma max_cols: "columns (cargar_dataset max_id_store) = schema"
  by code_simp

lemma two_rows_length: "length (rows (cargar_dataset two_comment_store)) = 2"
  by code_simp

section \<open>Statistics\<close>

text \<open>
  C10, as the code has it. For every store reachable from an absent or empty file by
  seeding, appending and deleting, under collaborators whose CSV round trip returns the
  label and score columns of such a table as labels and floats and whose writes do not
  fail after the file was opened, \<open>obtener_estadisticas\<close> returns statistics (it does not
  raise) whose three category counts add up to the total: every label the pipeline
  writes, the one of the fallback path included, is one of the three labels of the
  classifier.
\<close>

theorem reachable_counts_sum_to_total:
  "reachable st \<Longrightarrow>
   (case obtener_estadisticas_raw e st of
      Inl ex \<Rightarrow> False
    | Inr s \<Rightarrow> positivos s + negativos s + neutros s = total s)"
proof -
  assume "reachable st"
  then have ok: "table_ok (cargar_dataset st)" by (rule reachable_table_ok)
  let ?df = "cargar_dataset st"
  show ?thesis
  proof (cases "df_empty ?df")
    case True
    then show ?thesis by (simp add: obtener_estadisticas_raw_def)
  next
    case False
    then have cols: "columns ?df = schema" using ok by (auto simp: table_ok_def df_empty_def)
    obtain avg where avg: "mean e (column ?df ''compound'') = Inr avg"
      using ok mean_of_floats [of "column ?df ''compound''" e] by (auto simp: table_ok_def)
    have "count_label ?df ''Positivo'' + count_label ?df ''Negativo''
          + count_label ?df ''Neutro'' = length (rows ?df)"
      using ok count_labels [of "column ?df ''sentimiento''"]
      by (simp add: count_label_def table_ok_def) (simp add: column_def)
    then show ?thesis
      using False cols avg by (simp add: obtener_estadisticas_raw_def Let_def schema_def)
  qed
qed

theorem reachable_counts_sum_to_total_witness:
  "reachable two_comment_store
   \<and> (case obtener_estadisticas_raw offline_env two_comment_store of
         Inl ex \<Rightarrow> False
       | Inr s \<Rightarrow> positivos s + negativos s + neutros s = total s)"
proof -
  have "reachable (fresh_store :: fila store)"
    by (rule reachable.start) (simp add: fresh_store_def)
  then have "reachable (fst (agregar_comentario offline_env fresh_store ''a'' [] []))"
    using faithful_io_offline by (rule reachable.append)
  then have r: "reachable two_comment_store"
    unfolding two_comment_store_def using faithful_io_offline by (rule reachable.append)
  show ?thesis using r reachable_counts_sum_to_total [OF r, of offline_env] by simp
qed

text \<open>
  A valid comment with a carriage return in it, on a CSV library that leaves it
  unquoted: the submission shows the result page, the table read back has two rows and
  no label among them, and the counts are 0, 0 and 0 for a total of 2.
\<close>

theorem carriage_return_breaks_counts:
  "snd (submit_comment cr_env fresh_store cr_form)
     = ResultPage (''a'' @ [CHR 0x0D] @ ''b'') Anonimo ''Neutro'' 0 0 0 1
   \<and> obtener_estadisticas_raw cr_env (fst (submit_comment cr_env fresh_store cr_form))
     = Inr \<lparr>total = 2, positivos = 0, negativos = 0, neutros = 0,
            promedio_compound = CNaN, status = ''ok''\<rparr>"
  by code_simp




text \<open>
  On a table of the data model, held as cells, \<open>obtener_estadisticas_raw\<close> is
  \<open>obtener_estadisticas\<close>.
\<close>

lemma cells_of_cells:
  "cell_of (cells_of r) ''sentimiento'' = CStr (sentimiento r)"
  "cell_of (cells_of r) ''compound'' = CFloat (compound r)"
  by (simp_all add: cells_of_def cell_of_def)

lemma numbers_floats: "numbers (map CFloat xs) = xs"
  by (induction xs) simp_all

lemma no_text_floats: "\<not> list_ex is_text (map CFloat xs)"
  by (induction xs) simp_all

lemma mean_floats:
  "xs \<noteq> [] \<Longrightarrow> mean e (map CFloat xs) = Inr (CFloat (sum_list xs / real (length xs)))"
  by (cases xs) (simp_all add: mean_def no_text_floats numbers_floats)

lemma cargar_dataset_cells:
  "cargar_dataset (cells_of_store st) = cells_of_df (cargar_dataset st)"
  by (cases "csv_file st") (simp_all add: cargar_dataset_def cells_of_store_def cells_of_df_def)

lemma obtener_estadisticas_raw_on_data_model:
  "obtener_estadisticas_raw e (cells_of_store st)
   = (case obtener_estadisticas st of
        Inl ex \<Rightarrow> Inl ex
      | Inr s \<Rightarrow> Inr \<lparr>total = total s, positivos = positivos s, negativos = negativos s,
                     neutros = neutros s, promedio_compound = CFloat (promedio_compound s),
                     status = status s\<rparr>)"
proof -
  let ?df = "cargar_dataset st"
  have col_s: "column (cells_of_df ?df) ''sentimiento'' = map (\<lambda>r. CStr (sentimiento r)) (rows ?df)"
    by (simp add: column_def cells_of_df_def cells_of_cells comp_def)
  have col_c: "column (cells_of_df ?df) ''compound'' = map CFloat (map compound (rows ?df))"
    by (simp add: column_def cells_of_df_def cells_of_cells comp_def)
  have cnt: "count_label (cells_of_df ?df) l = value_count ?df l" for l
    unfolding count_label_def value_count_def col_s
    by (induction "rows ?df") (simp_all add: filter_map comp_def)
  have emp: "df_empty (cells_of_df ?df) = df_empty ?df"
    by (simp add: df_empty_def cells_of_df_def)
  have cols: "columns (cells_of_df ?df) = columns ?df" by (simp add: cells_of_df_def)
  have len: "length (rows (cells_of_df ?df)) = length (rows ?df)" by (simp add: cells_of_df_def)
  have avg: "mean e (column (cells_of_df ?df) ''compound'') = Inr (CFloat (mean_compound ?df))"
    if "rows ?df \<noteq> []"
    using that mean_floats [of "map compound (rows ?df)" e]
    unfolding col_c mean_compound_def by simp
  show ?thesis
  proof (cases "df_empty ?df")
    case True
    then show ?thesis
      by (simp add: obtener_estadisticas_raw_def obtener_estadisticas_def Let_def
            cargar_dataset_cells emp)
  next
    case False
    then have "rows ?df \<noteq> []" by (simp add: df_empty_def)
    then show ?thesis
      using False
      by (simp add: obtener_estadisticas_raw_def obtener_estadisticas_def Let_def
            cargar_dataset_cells emp cols len cnt avg)
  qed
qed

section \<open>Deleting a comment\<close>

lemma kept_int64:
  assumes "int64_column (map (\<lambda>r. cell_of r ''id'') rs)"
  shows "filter (\<lambda>r. cell_ne (cell_of r ''id'') i) rs = filter (\<lambda>r. cell_of r ''id'' \<noteq> CInt i) rs"
  using assms
proof (induction rs)
  case Nil
  show ?case by simp
next
  case (Cons r rs)
  then show ?case by (cases "cell_of r ''id''") (auto simp: int64_column_def)
qed

lemma filter_other_ids_length:
  "distinct (map f rs) \<Longrightarrow> v \<in> set (map f rs) \<Longrightarrow>
   length (filter (\<lambda>r. f r \<noteq> v) rs) + 1 = length rs"
proof (induction rs)
  case Nil
  then show ?case by simp
next
  case (Cons r rs)
  show ?case
  proof (cases "f r = v")
    case True
    then have "v \<notin> set (map f rs)" using Cons.prems(1) by auto
    then have "filter (\<lambda>r. f r \<noteq> v) rs = rs" by (auto intro: filter_True)
    then show ?thesis using True by simp
  next
    case False
    then show ?thesis using Cons by auto
  qed
qed

text \<open>
  C9, as the code has it. For a logged-in administrator: on a non-empty table with an id
  column, when the file can be written, \<open>delete_comment\<close> replaces the file by the table
  without the rows whose id is the given one and answers with the redirect. With an
  int64 id column the rows kept are those with another id, unchanged and in order: one
  row fewer when the ids are distinct and a row has the id, all the rows when no row
  has it. On an empty table nothing is written. When the file cannot be opened for
  writing, or the write fails after opening and leaves the file damaged, the answer is
  the error page with code 500, whether or not a row has the id.
\<close>

theorem delete_comment_rewrites_without_id:
  "(let df = cargar_dataset st;
        kept = filter (\<lambda>r. cell_ne (cell_of r ''id'') i) (rows df)
    in (\<not> df_empty df \<and> ''id'' \<in> set (columns df) \<and> writable st \<and> disk_fault e = None \<longrightarrow>
          delete_comment e True st i
            = (st\<lparr>csv_file := read_back e (df\<lparr>rows := kept\<rparr>)\<rparr>, Redirect ''admin_dashboard''))
       \<and> (int64_column (column df ''id'') \<longrightarrow>
            kept = filter (\<lambda>r. cell_of r ''id'' \<noteq> CInt i) (rows df))
       \<and> (int64_column (column df ''id'') \<and> distinct (column df ''id'')
            \<and> CInt i \<in> set (column df ''id'') \<longrightarrow> length kept + 1 = length (rows df))
       \<and> (int64_column (column df ''id'') \<and> CInt i \<notin> set (column df ''id'') \<longrightarrow>
            kept = rows df)
       \<and> (df_empty df \<or> ''id'' \<notin> set (columns df) \<longrightarrow>
            delete_comment e True st i = (st, Redirect ''admin_dashboard''))
       \<and> (\<not> df_empty df \<and> ''id'' \<in> set (columns df) \<and> \<not> writable st \<longrightarrow>
            delete_comment e True st i = (st, ErrorPage ''Error al eliminar: OSError'' 500))
       \<and> (\<forall>damaged. \<not> df_empty df \<and> ''id'' \<in> set (columns df) \<and> writable st
              \<and> disk_fault e = Some damaged \<longrightarrow>
            delete_comment e True st i
              = (st\<lparr>csv_file := damaged\<rparr>, ErrorPage ''Error al eliminar: OSError'' 500)))"
  unfolding Let_def
proof (intro conjI impI allI)
  let ?df = "cargar_dataset st"
  let ?kept = "filter (\<lambda>r. cell_ne (cell_of r ''id'') i) (rows ?df)"
  show "delete_comment e True st i
            = (st\<lparr>csv_file := read_back e (?df\<lparr>rows := ?kept\<rparr>)\<rparr>, Redirect ''admin_dashboard'')"
    if "\<not> df_empty ?df \<and> ''id'' \<in> set (columns ?df) \<and> writable st \<and> disk_fault e = None"
    using that by (simp add: delete_comment_def to_csv_def Let_def)
  show k: "?kept = filter (\<lambda>r. cell_of r ''id'' \<noteq> CInt i) (rows ?df)"
    if "int64_column (column ?df ''id'')"
    using that kept_int64 [of "rows ?df" i] by (simp add: column_def)
  show "length ?kept + 1 = length (rows ?df)"
    if a: "int64_column (column ?df ''id'') \<and> distinct (column ?df ''id'')
           \<and> CInt i \<in> set (column ?df ''id'')"
  proof -
    have "length (filter (\<lambda>r. cell_of r ''id'' \<noteq> CInt i) (rows ?df)) + 1 = length (rows ?df)"
      using a filter_other_ids_length [of "\<lambda>r. cell_of r ''id''" "rows ?df" "CInt i"]
      by (simp add: column_def)
    then show ?thesis using k a by simp
  qed
  show "?kept = rows ?df"
    if a: "int64_column (column ?df ''id'') \<and> CInt i \<notin> set (column ?df ''id'')"
  proof -
    have "filter (\<lambda>r. cell_of r ''id'' \<noteq> CInt i) (rows ?df) = rows ?df"
      using a by (force simp: column_def filter_id_conv)
    then show ?thesis using k a by simp
  qed
  show "delete_comment e True st i = (st, Redirect ''admin_dashboard'')"
    if "df_empty ?df \<or> ''id'' \<notin> set (columns ?df)"
    using that by (auto simp: delete_comment_def Let_def)
  show "delete_comment e True st i = (st, ErrorPage ''Error al eliminar: OSError'' 500)"
    if "\<not> df_empty ?df \<and> ''id'' \<in> set (columns ?df) \<and> \<not> writable st"
    using that by (simp add: delete_comment_def to_csv_def Let_def str_exn_def)
next
  fix damaged
  let ?df = "cargar_dataset st"
  assume "\<not> df_empty ?df \<and> ''id'' \<in> set (columns ?df) \<and> writable st
          \<and> disk_fault e = Some damaged"
  then show "delete_comment e True st i
              = (st\<lparr>csv_file := damaged\<rparr>, ErrorPage ''Error al eliminar: OSError'' 500)"
    by (simp add: delete_comment_def to_csv_def Let_def str_exn_def)
qed

theorem delete_comment_rewrites_without_id_witness:
  "column (cargar_dataset two_comment_store) ''id'' = [CInt 1, CInt 2]
   \<and> length (filter (\<lambda>r. cell_ne (cell_of r ''id'') 2) (rows (cargar_dataset two_comment_store))) = 1
   \<and> filter (\<lambda>r. cell_ne (cell_of r ''id'') 5) (rows (cargar_dataset two_comment_store))
       = rows (cargar_dataset two_comment_store)
   \<and> delete_comment offline_env True two_comment_store 2
       = (two_comment_store\<lparr>csv_file := read_back offline_env
            ((cargar_dataset two_comment_store)
               \<lparr>rows := filter (\<lambda>r. cell_ne (cell_of r ''id'') 2)
                           (rows (cargar_dataset two_comment_store))\<rparr>)\<rparr>,
          Redirect ''admin_dashboard'')
   \<and> delete_comment offline_env True (fresh_store :: fila store) 2
       = (fresh_store, Redirect ''admin_dashboard'')
   \<and> delete_comment offline_env True (two_comment_store\<lparr>writable := False\<rparr>) 2
       = (two_comment_store\<lparr>writable := False\<rparr>, ErrorPage ''Error al eliminar: OSError'' 500)
   \<and> delete_comment full_disk_env True two_comment_store 2
       = (two_comment_store\<lparr>csv_file := EmptyFile\<rparr>, ErrorPage ''Error al eliminar: OSError'' 500)"
proof -
  have ne: "\<not> df_empty (cargar_dataset two_comment_store)"
    using two_ids two_cols by (auto simp: df_empty_def column_def schema_def)
  have idc: "''id'' \<in> set (columns (cargar_dataset two_comment_store))"
    by (simp add: two_cols schema_def)
  have i64: "int64_column (column (cargar_dataset two_comment_store) ''id'')"
    by (simp add: two_ids int64_column_def)
  have d: "distinct (column (cargar_dataset two_comment_store) ''id'')" by (simp add: two_ids)
  have m2: "CInt 2 \<in> set (column (cargar_dataset two_comment_store) ''id'')"
    by (simp add: two_ids)
  have m5: "CInt 5 \<notin> set (column (cargar_dataset two_comment_store) ''id'')"
    by (simp add: two_ids)
  have nf: "disk_fault offline_env = None" by (simp add: offline_env_def)
  have e0: "df_empty (cargar_dataset (fresh_store :: fila store))"
    by (simp add: fresh_store_def cargar_dataset_def df_empty_def)
  have cu: "cargar_dataset (two_comment_store\<lparr>writable := False\<rparr>) = cargar_dataset two_comment_store"
    by (simp add: cargar_dataset_def)
  note T2 = delete_comment_rewrites_without_id [of two_comment_store 2 offline_env, unfolded Let_def]
  have l2: "length (filter (\<lambda>r. cell_ne (cell_of r ''id'') 2)
                      (rows (cargar_dataset two_comment_store))) + 1
            = length (rows (cargar_dataset two_comment_store))"
    using T2 i64 d m2 by blast
  have t2: "length (filter (\<lambda>r. cell_ne (cell_of r ''id'') 2)
                      (rows (cargar_dataset two_comment_store))) = 1"
    using l2 two_rows_length by simp
  have r2: "delete_comment offline_env True two_comment_store 2
               = (two_comment_store\<lparr>csv_file := read_back offline_env
                    ((cargar_dataset two_comment_store)
                       \<lparr>rows := filter (\<lambda>r. cell_ne (cell_of r ''id'') 2)
                                   (rows (cargar_dataset two_comment_store))\<rparr>)\<rparr>,
                  Redirect ''admin_dashboard'')"
    using T2 ne idc nf two_writable by blast
  have t5: "filter (\<lambda>r. cell_ne (cell_of r ''id'') 5) (rows (cargar_dataset two_comment_store))
            = rows (cargar_dataset two_comment_store)"
    using delete_comment_rewrites_without_id [of two_comment_store 5 offline_env, unfolded Let_def]
          i64 m5
    by blast
  have t0: "delete_comment offline_env True (fresh_store :: fila store) 2
            = (fresh_store, Redirect ''admin_dashboard'')"
    using delete_comment_rewrites_without_id [of fresh_store 2 offline_env, unfolded Let_def] e0
    by blast
  have tu: "delete_comment offline_env True (two_comment_store\<lparr>writable := False\<rparr>) 2
       = (two_comment_store\<lparr>writable := False\<rparr>, ErrorPage ''Error al eliminar: OSError'' 500)"
    using delete_comment_rewrites_without_id
            [of "two_comment_store\<lparr>writable := False\<rparr>" 2 offline_env, unfolded Let_def]
          ne idc
    by (simp add: cu)
  have fd: "disk_fault full_disk_env = Some EmptyFile" by (simp add: full_disk_env_def)
  have td: "delete_comment full_disk_env True two_comment_store 2
       = (two_comment_store\<lparr>csv_file := EmptyFile\<rparr>, ErrorPage ''Error al eliminar: OSError'' 500)"
    using delete_comment_rewrites_without_id [of two_comment_store 2 full_disk_env, unfolded Let_def]
          ne idc two_writable fd
    by blast
  show ?thesis using t2 r2 t5 t0 tu td two_ids by blast
qed

text \<open>
  No row has the id 5, the file cannot be opened for writing, and the answer is the
  error page.
\<close>

theorem delete_of_missing_id_answers_error:
  "column (cargar_dataset (two_comment_store\<lparr>writable := False\<rparr>)) ''id'' = [CInt 1, CInt 2]
   \<and> delete_comment offline_env True (two_comment_store\<lparr>writable := False\<rparr>) 5
     = (two_comment_store\<lparr>writable := False\<rparr>, ErrorPage ''Error al eliminar: OSError'' 500)"
  by code_simp

section \<open>Appending a comment\<close>

text \<open>
  C1, as the code has it. The new id is 1 when the table is empty or has no id column.
  On a non-empty table with an int64 id column it is the maximum id plus 1 in int64
  arithmetic: the maximum plus 1, above every id present, as long as the maximum is
  below \<open>2^63 - 1\<close>, and \<open>-2^63\<close> at that maximum. When the id was computed and the file
  is written, the table written is the table loaded followed by one row with that id.
  Nothing records the ids that were deleted.
\<close>

theorem agregar_comentario_assigns_max_plus_one:
  "(let df = cargar_dataset st;
        ids = ints (column df ''id'');
        res = analizar_sentimiento e (PyStr c)
    in (df_empty df \<or> ''id'' \<notin> set (columns df) \<longrightarrow> nuevo_id df = Inr (CInt 1))
       \<and> (\<not> df_empty df \<and> ''id'' \<in> set (columns df) \<and> int64_column (column df ''id'') \<longrightarrow>
            nuevo_id df = Inr (CInt (int64 (Max (set ids) + 1)))
            \<and> (Max (set ids) < 2 ^ 63 - 1 \<longrightarrow>
                 nuevo_id df = Inr (CInt (Max (set ids) + 1))
                 \<and> list_all (\<lambda>k. k < Max (set ids) + 1) ids)
            \<and> (Max (set ids) = 2 ^ 63 - 1 \<longrightarrow> nuevo_id df = Inr (CInt (- (2 ^ 63)))))
       \<and> (\<forall>i. writable st \<and> disk_fault e = None \<and> nuevo_id df = Inr i \<longrightarrow>
            agregar_comentario e st c n m
              = (st\<lparr>csv_file := read_back e
                     \<lparr>columns = columns df @ filter (\<lambda>k. k \<notin> set (columns df)) schema,
                      rows = rows df @ [nueva_fila e i c n m res]\<rparr>\<rparr>,
                 True, Some res)
            \<and> cell_of (nueva_fila e i c n m res) ''id'' = i))"
  unfolding Let_def
proof (intro conjI impI allI)
  let ?df = "cargar_dataset st"
  let ?ids = "ints (column ?df ''id'')"
  show "nuevo_id ?df = Inr (CInt 1)" if "df_empty ?df \<or> ''id'' \<notin> set (columns ?df)"
    using that by (auto simp: nuevo_id_def)
  assume a: "\<not> df_empty ?df \<and> ''id'' \<in> set (columns ?df) \<and> int64_column (column ?df ''id'')"
  then have ne: "column ?df ''id'' \<noteq> []" by (simp add: df_empty_def column_def)
  have i64: "int64_column (column ?df ''id'')" using a by simp
  have n: "nuevo_id ?df = max_plus_one (column ?df ''id'')" using a by (simp add: nuevo_id_def)
  show w: "nuevo_id ?df = Inr (CInt (int64 (Max (set ?ids) + 1)))"
    using n max_plus_one_int64(1) [OF i64 ne] by simp
  show "nuevo_id ?df = Inr (CInt (Max (set ?ids) + 1))" if "Max (set ?ids) < 2 ^ 63 - 1"
    using w that max_plus_one_int64(2) [OF i64 ne] by (simp add: int64_in_range)
  show "list_all (\<lambda>k. k < Max (set ?ids) + 1) ?ids" if "Max (set ?ids) < 2 ^ 63 - 1"
    using max_plus_one_int64(4) [OF i64 ne] by (auto simp: list_all_iff)
  show "nuevo_id ?df = Inr (CInt (- (2 ^ 63)))" if "Max (set ?ids) = 2 ^ 63 - 1"
    using w that int64_overflow by simp
next
  fix i
  let ?df = "cargar_dataset st"
  assume "writable st \<and> disk_fault e = None \<and> nuevo_id ?df = Inr i"
  then show "agregar_comentario e st c n m
              = (st\<lparr>csv_file := read_back e
                     \<lparr>columns = columns ?df @ filter (\<lambda>k. k \<notin> set (columns ?df)) schema,
                      rows = rows ?df @ [nueva_fila e i c n m (analizar_sentimiento e (PyStr c))]\<rparr>\<rparr>,
                 True, Some (analizar_sentimiento e (PyStr c)))"
    by (simp add: agregar_comentario_def to_csv_def concat_row_def Let_def)
next
  fix i
  show "cell_of (nueva_fila e i c n m (analizar_sentimiento e (PyStr c))) ''id'' = i"
    by (simp add: nueva_fila_cells)
qed

theorem agregar_comentario_assigns_max_plus_one_witness:
  "nuevo_id (cargar_dataset (fresh_store :: fila store)) = Inr (CInt 1)
   \<and> nuevo_id (cargar_dataset two_comment_store) = Inr (CInt 3)
   \<and> nuevo_id (cargar_dataset max_id_store) = Inr (CInt (- (2 ^ 63)))
   \<and> snd (agregar_comentario offline_env two_comment_store ''x'' [] [])
       = (True, Some (analizar_sentimiento offline_env (PyStr ''x'')))
   \<and> column (cargar_dataset (fst (agregar_comentario offline_env two_comment_store ''x'' [] [])))
        ''id'' = [CInt 1, CInt 2, CInt 3]"
proof -
  have e0: "df_empty (cargar_dataset (fresh_store :: fila store))"
    by (simp add: fresh_store_def cargar_dataset_def df_empty_def)
  have ne2: "\<not> df_empty (cargar_dataset two_comment_store)"
    using two_ids two_cols by (auto simp: df_empty_def column_def schema_def)
  have id2: "''id'' \<in> set (columns (cargar_dataset two_comment_store))"
    by (simp add: two_cols schema_def)
  have i2: "int64_column (column (cargar_dataset two_comment_store) ''id'')"
    by (simp add: two_ids int64_column_def)
  have nem: "\<not> df_empty (cargar_dataset max_id_store)"
    using max_ids max_cols by (auto simp: df_empty_def column_def schema_def)
  have idm: "''id'' \<in> set (columns (cargar_dataset max_id_store))"
    by (simp add: max_cols schema_def)
  have im: "int64_column (column (cargar_dataset max_id_store) ''id'')"
    by (simp add: max_ids int64_column_def)
  have nf: "disk_fault offline_env = None" by (simp add: offline_env_def)
  note T = agregar_comentario_assigns_max_plus_one
             [of two_comment_store offline_env "''x''" "[]" "[]", unfolded Let_def]
  have a: "nuevo_id (cargar_dataset (fresh_store :: fila store)) = Inr (CInt 1)"
    using agregar_comentario_assigns_max_plus_one [of fresh_store offline_env "''x''" "[]" "[]"] e0
    by (simp add: Let_def)
  have b: "nuevo_id (cargar_dataset two_comment_store) = Inr (CInt 3)"
    using T ne2 id2 i2 by (simp add: two_ids int64_def)
  have c: "nuevo_id (cargar_dataset max_id_store) = Inr (CInt (- (2 ^ 63)))"
    using agregar_comentario_assigns_max_plus_one [of max_id_store offline_env "''x''" "[]" "[]"]
          nem idm im
    by (simp add: Let_def max_ids int64_def)
  have w: "agregar_comentario offline_env two_comment_store ''x'' [] []
           = (two_comment_store\<lparr>csv_file := read_back offline_env
                \<lparr>columns = columns (cargar_dataset two_comment_store)
                     @ filter (\<lambda>k. k \<notin> set (columns (cargar_dataset two_comment_store))) schema,
                 rows = rows (cargar_dataset two_comment_store)
                     @ [nueva_fila offline_env (CInt 3) ''x'' [] []
                          (analizar_sentimiento offline_env (PyStr ''x''))]\<rparr>\<rparr>,
              True, Some (analizar_sentimiento offline_env (PyStr ''x'')))"
    using T b nf two_writable by blast
  have d: "column (cargar_dataset
             (two_comment_store\<lparr>csv_file := read_back offline_env
                \<lparr>columns = columns (cargar_dataset two_comment_store)
                     @ filter (\<lambda>k. k \<notin> set (columns (cargar_dataset two_comment_store))) schema,
                 rows = rows (cargar_dataset two_comment_store)
                     @ [nueva_fila offline_env (CInt 3) ''x'' [] []
                          (analizar_sentimiento offline_env (PyStr ''x''))]\<rparr>\<rparr>)) ''id''
           = [CInt 1, CInt 2, CInt 3]"
    by code_simp
  show ?thesis using a b c d by (simp add: w)
qed

text \<open>
  The id 2 is deleted from a table with the ids 1 and 2, and the next comment gets the
  id 2 again.
\<close>

theorem deleted_id_reassigned:
  "column (cargar_dataset two_comment_store) ''id'' = [CInt 1, CInt 2]
   \<and> column (cargar_dataset (fst (delete_comment offline_env True two_comment_store 2))) ''id''
       = [CInt 1]
   \<and> column (cargar_dataset
         (fst (agregar_comentario offline_env
                 (fst (delete_comment offline_env True two_comment_store 2)) ''c'' [] []))) ''id''
       = [CInt 1, CInt 2]
   \<and> column (cargar_dataset
         (fst (agregar_comentario offline_env
                 (fst (delete_comment offline_env True two_comment_store 2)) ''c'' [] [])))
         ''comentario''
       = [CStr ''a'', CStr ''c'']"
  by code_simp

section \<open>Submitting a comment\<close>

lemma analizar_sentimiento_scoring_failure:
  "isl (analizar_body e v) \<Longrightarrow> analizar_sentimiento e v = neutral_result v"
  by (cases "analizar_body e v") (simp_all add: analizar_sentimiento_def)

lemma agregar_comentario_id_failure:
  "isl (nuevo_id (cargar_dataset st)) \<Longrightarrow> agregar_comentario e st c n m = (st, False, None)"
  by (cases "nuevo_id (cargar_dataset st)") (simp_all add: agregar_comentario_def Let_def)

lemma agregar_comentario_unwritable:
  "\<not> isl (nuevo_id (cargar_dataset st)) \<Longrightarrow> \<not> writable st \<Longrightarrow>
   agregar_comentario e st c n m = (st, False, None)"
  by (cases "nuevo_id (cargar_dataset st)")
     (simp_all add: agregar_comentario_def to_csv_def Let_def)

lemma agregar_comentario_disk_fault:
  "\<not> isl (nuevo_id (cargar_dataset st)) \<Longrightarrow> writable st \<Longrightarrow> disk_fault e = Some damaged \<Longrightarrow>
   agregar_comentario e st c n m = (st\<lparr>csv_file := damaged\<rparr>, False, None)"
  by (cases "nuevo_id (cargar_dataset st)")
     (simp_all add: agregar_comentario_def to_csv_def Let_def)

lemma agregar_comentario_written:
  "nuevo_id (cargar_dataset st) = Inr i \<Longrightarrow> writable st \<Longrightarrow> disk_fault e = None \<Longrightarrow>
   agregar_comentario e st c n m =
     (st\<lparr>csv_file := read_back e (concat_row (cargar_dataset st)
            (nueva_fila e i c n m (analizar_sentimiento e (PyStr c))))\<rparr>,
      True, Some (analizar_sentimiento e (PyStr c)))"
  by (simp add: agregar_comentario_def to_csv_def Let_def)

lemma hola_c: "strip (form_get hola_form ''comentario'' []) = ''hola''"
  by code_simp
lemma hola_n: "strip (form_get hola_form ''nombre'' Anonimo) = Anonimo"
  by code_simp
lemma hola_m: "strip (form_get hola_form ''email'' []) = []"
  by code_simp
lemma hola_isl: "isl (analizar_body offline_env (PyStr ''hola''))"
  by code_simp
lemma empty_c: "strip (form_get Map.empty ''comentario'' []) = []"
  by code_simp
lemma cr_store_id_fails: "nuevo_id (cargar_dataset cr_store) = Inl TypeError"
  by code_simp
lemma two_next_id: "nuevo_id (cargar_dataset two_comment_store) = Inr (CInt 3)"
  by code_simp
lemma fresh_next_id: "nuevo_id (cargar_dataset (fresh_store :: fila store)) = Inr (CInt 1)"
  by (simp add: nuevo_id_def fresh_store_def cargar_dataset_def df_empty_def)

text \<open>
  C4, as the code has it. A validation failure (empty or too long comment) answers
  with code 400 and leaves the store as it was. A failure of the id computation, or of
  opening the file for writing, answers with the internal error, code 500, and leaves
  the store as it was. A write that fails after the file was opened answers with code
  500 and leaves the file damaged. An exception during scoring is caught inside the
  analysis: the submission succeeds, and the record handed to the write carries the
  neutral defaults.
\<close>

theorem submit_comment_error_kinds:
  "(let c = strip (form_get form ''comentario'' []);
        n = strip (form_get form ''nombre'' Anonimo);
        m = strip (form_get form ''email'' []);
        df = cargar_dataset st
    in (c = [] \<or> length c > 1000 \<longrightarrow>
          fst (submit_comment e st form) = st
          \<and> (case snd (submit_comment e st form) of
                ErrorPage msg code \<Rightarrow> code = 400 | _ \<Rightarrow> False))
       \<and> (c \<noteq> [] \<and> length c \<le> 1000 \<and> isl (nuevo_id df) \<longrightarrow>
          submit_comment e st form = (st, ErrorPage ''Error al guardar el comentario'' 500))
       \<and> (c \<noteq> [] \<and> length c \<le> 1000 \<and> \<not> isl (nuevo_id df) \<and> \<not> writable st \<longrightarrow>
          submit_comment e st form = (st, ErrorPage ''Error al guardar el comentario'' 500))
       \<and> (\<forall>damaged. c \<noteq> [] \<and> length c \<le> 1000 \<and> \<not> isl (nuevo_id df) \<and> writable st
             \<and> disk_fault e = Some damaged \<longrightarrow>
          submit_comment e st form
            = (st\<lparr>csv_file := damaged\<rparr>, ErrorPage ''Error al guardar el comentario'' 500))
       \<and> (\<forall>i. c \<noteq> [] \<and> length c \<le> 1000 \<and> nuevo_id df = Inr i \<and> writable st
             \<and> disk_fault e = None \<and> isl (analizar_body e (PyStr c)) \<longrightarrow>
          submit_comment e st form
            = (st\<lparr>csv_file := read_back e (concat_row df
                    (nueva_fila e i c n m (neutral_result (PyStr c))))\<rparr>,
               ResultPage c n ''Neutro'' 0 0 0 1)))"
  unfolding Let_def
proof (intro conjI impI allI)
  let ?c = "strip (form_get form ''comentario'' [])"
  show "fst (submit_comment e st form) = st" if "?c = [] \<or> length ?c > 1000"
    using that by (auto simp: submit_comment_def Let_def)
  show "case snd (submit_comment e st form) of
          ErrorPage msg code \<Rightarrow> code = 400 | _ \<Rightarrow> False"
    if "?c = [] \<or> length ?c > 1000"
    using that by (auto simp: submit_comment_def Let_def)
  show "submit_comment e st form = (st, ErrorPage ''Error al guardar el comentario'' 500)"
    if "?c \<noteq> [] \<and> length ?c \<le> 1000 \<and> isl (nuevo_id (cargar_dataset st))"
    using that by (simp add: submit_comment_def Let_def agregar_comentario_id_failure)
  show "submit_comment e st form = (st, ErrorPage ''Error al guardar el comentario'' 500)"
    if "?c \<noteq> [] \<and> length ?c \<le> 1000 \<and> \<not> isl (nuevo_id (cargar_dataset st)) \<and> \<not> writable st"
    using that by (simp add: submit_comment_def Let_def agregar_comentario_unwritable)
next
  fix damaged
  let ?c = "strip (form_get form ''comentario'' [])"
  assume "?c \<noteq> [] \<and> length ?c \<le> 1000 \<and> \<not> isl (nuevo_id (cargar_dataset st)) \<and> writable st
          \<and> disk_fault e = Some damaged"
  then show "submit_comment e st form
            = (st\<lparr>csv_file := damaged\<rparr>, ErrorPage ''Error al guardar el comentario'' 500)"
    by (simp add: submit_comment_def Let_def agregar_comentario_disk_fault)
next
  fix i
  let ?c = "strip (form_get form ''comentario'' [])"
  assume a: "?c \<noteq> [] \<and> length ?c \<le> 1000 \<and> nuevo_id (cargar_dataset st) = Inr i \<and> writable st
             \<and> disk_fault e = None \<and> isl (analizar_body e (PyStr ?c))"
  then have "analizar_sentimiento e (PyStr ?c) = neutral_result (PyStr ?c)"
    by (simp add: analizar_sentimiento_scoring_failure)
  then show "submit_comment e st form
            = (st\<lparr>csv_file := read_back e (concat_row (cargar_dataset st)
                    (nueva_fila e i ?c (strip (form_get form ''nombre'' Anonimo))
                       (strip (form_get form ''email'' [])) (neutral_result (PyStr ?c))))\<rparr>,
               ResultPage ?c (strip (form_get form ''nombre'' Anonimo)) ''Neutro'' 0 0 0 1)"
    using a by (simp add: submit_comment_def Let_def agregar_comentario_written)
               (simp add: neutral_result_def)
qed

theorem submit_comment_error_kinds_witness:
  "fst (submit_comment offline_env fresh_store Map.empty) = fresh_store
   \<and> (case snd (submit_comment offline_env fresh_store Map.empty) of
         ErrorPage msg code \<Rightarrow> code = 400 | _ \<Rightarrow> False)
   \<and> submit_comment offline_env cr_store hola_form
     = (cr_store, ErrorPage ''Error al guardar el comentario'' 500)
   \<and> submit_comment offline_env (two_comment_store\<lparr>writable := False\<rparr>) hola_form
     = (two_comment_store\<lparr>writable := False\<rparr>, ErrorPage ''Error al guardar el comentario'' 500)
   \<and> submit_comment full_disk_env two_comment_store hola_form
     = (two_comment_store\<lparr>csv_file := EmptyFile\<rparr>,
        ErrorPage ''Error al guardar el comentario'' 500)
   \<and> submit_comment offline_env fresh_store hola_form
     = (fresh_store\<lparr>csv_file := read_back offline_env (concat_row (cargar_dataset fresh_store)
           (nueva_fila offline_env (CInt 1) ''hola'' Anonimo [] (neutral_result (PyStr ''hola''))))\<rparr>,
        ResultPage ''hola'' Anonimo ''Neutro'' 0 0 0 1)"
proof -
  have cu: "cargar_dataset (two_comment_store\<lparr>writable := False\<rparr>) = cargar_dataset two_comment_store"
    by (simp add: cargar_dataset_def)
  have fd: "disk_fault full_disk_env = Some EmptyFile" by (simp add: full_disk_env_def)
  have nf: "disk_fault offline_env = None" by (simp add: offline_env_def)
  have wf: "writable (fresh_store :: fila store)" by (simp add: fresh_store_def)
  note V = submit_comment_error_kinds [where form = Map.empty and e = offline_env and st = fresh_store, unfolded Let_def]
  note I = submit_comment_error_kinds [where form = hola_form and e = offline_env and st = cr_store, unfolded Let_def]
  note U = submit_comment_error_kinds
             [where form = hola_form and e = offline_env
                and st = "two_comment_store\<lparr>writable := False\<rparr>", unfolded Let_def]
  note D = submit_comment_error_kinds [where form = hola_form and e = full_disk_env and st = two_comment_store, unfolded Let_def]
  note S = submit_comment_error_kinds [where form = hola_form and e = offline_env and st = fresh_store, unfolded Let_def]
  have v: "fst (submit_comment offline_env fresh_store Map.empty) = fresh_store
           \<and> (case snd (submit_comment offline_env fresh_store Map.empty) of
                 ErrorPage msg code \<Rightarrow> code = 400 | _ \<Rightarrow> False)"
    using V empty_c by simp
  have i: "submit_comment offline_env cr_store hola_form
           = (cr_store, ErrorPage ''Error al guardar el comentario'' 500)"
    using I cr_store_id_fails by (simp add: hola_c)
  have u: "submit_comment offline_env (two_comment_store\<lparr>writable := False\<rparr>) hola_form
     = (two_comment_store\<lparr>writable := False\<rparr>, ErrorPage ''Error al guardar el comentario'' 500)"
    using U two_next_id by (simp add: hola_c cu)
  have d: "submit_comment full_disk_env two_comment_store hola_form
     = (two_comment_store\<lparr>csv_file := EmptyFile\<rparr>,
        ErrorPage ''Error al guardar el comentario'' 500)"
    using D two_next_id two_writable fd by (simp add: hola_c)
  have s: "submit_comment offline_env fresh_store hola_form
     = (fresh_store\<lparr>csv_file := read_back offline_env (concat_row (cargar_dataset fresh_store)
           (nueva_fila offline_env (CInt 1) ''hola'' Anonimo [] (neutral_result (PyStr ''hola''))))\<rparr>,
        ResultPage ''hola'' Anonimo ''Neutro'' 0 0 0 1)"
    using S fresh_next_id wf nf hola_isl by (simp add: hola_c hola_n hola_m)
  show ?thesis using v i u d s by blast
qed

text \<open>
  With a scorer that raises, the submission of "hola" shows the result page and the
  file holds the defaulted record.
\<close>

theorem scoring_failure_appends_default_record:
  "polarity_scores offline_env ''hola'' = Inl ScorerError
   \<and> submit_comment offline_env fresh_store hola_form
     = (\<lparr>writable = True,
         csv_file = Csv \<lparr>columns = schema,
           rows = [[(''id'', CInt 1), (''fecha'', CStr ''2024-01-01 00:00:00''),
                    (''nombre'', CStr Anonimo), (''email'', CNaN),
                    (''comentario'', CStr ''hola''), (''sentimiento'', CStr ''Neutro''),
                    (''compound'', CFloat 0), (''positivo'', CFloat 0),
                    (''negativo'', CFloat 0), (''neutro'', CFloat 1)]]\<rparr>\<rparr>,
        ResultPage ''hola'' Anonimo ''Neutro'' 0 0 0 1)"
  by code_simp

section \<open>The two analysis entry points\<close>

lemma neutral_verdict: "verdict (neutral_result v) = (0, 1, 0, 0, ''Neutro'')"
  by (simp add: verdict_def neutral_result_def)

lemma good_bus_no_stop_word: "\<not> tiene_espanol ''good bus''"
  by code_simp
lemma good_bus_translated:
  "fst (traducir_es_en (translate lexicon_env) (PyStr ''good bus'')) = Inr (PyStr ''good bus'')"
  by code_simp
lemma good_bus_clean: "limpiar_texto (PyStr ''good bus'') = ''good bus''"
  by code_simp
lemma el_bus_tokens: "1 < length (split ''el bus'')"
  by code_simp
lemma el_bus_translated:
  "fst (traducir_es_en (translate lexicon_env) (PyStr ''el bus'')) = Inr (PyStr ''the bus'')"
  by code_simp
lemma the_bus_clean: "limpiar_texto (PyStr ''the bus'') = ''the bus''"
  by code_simp

text \<open>
  C2, as the code has it. The two \<open>analizar_sentimiento\<close> give the neutral scores and the
  label Neutro on every empty or non-string argument, and the same scores and label on
  every string that is not a one-token text with a stop word in it and whose
  translation by app.py (the text itself when it is not translated) \<open>limpiar_texto\<close>
  leaves unchanged.
\<close>

theorem entry_points_agree_on_same_scored_text:
  "(\<not> truthy c \<or> \<not> is_str c \<longrightarrow>
      verdict (analizar_sentimiento e c) = (0, 1, 0, 0, ''Neutro'')
      \<and> verdict (sa_analizar_sentimiento e c) = (0, 1, 0, 0, ''Neutro''))
   \<and> (\<forall>t t'. c = PyStr t \<and> (tiene_espanol t \<longrightarrow> 1 < length (split t))
          \<and> fst (traducir_es_en (translate e) c) = Inr (PyStr t')
          \<and> limpiar_texto (PyStr t') = t' \<longrightarrow>
        verdict (analizar_sentimiento e c) = verdict (sa_analizar_sentimiento e c))"
proof (intro conjI impI allI)
  assume "\<not> truthy c \<or> \<not> is_str c"
  then show "verdict (analizar_sentimiento e c) = (0, 1, 0, 0, ''Neutro'')"
    by (auto simp: analizar_sentimiento_def analizar_body_def neutral_verdict)
next
  assume "\<not> truthy c \<or> \<not> is_str c"
  then show "verdict (sa_analizar_sentimiento e c) = (0, 1, 0, 0, ''Neutro'')"
    by (auto simp: sa_analizar_sentimiento_def sa_analizar_body_def neutral_verdict)
next
  fix t t'
  assume a: "c = PyStr t \<and> (tiene_espanol t \<longrightarrow> 1 < length (split t))
          \<and> fst (traducir_es_en (translate e) c) = Inr (PyStr t')
          \<and> limpiar_texto (PyStr t') = t'"
  have c: "c = PyStr t" using a by blast
  have app: "fst (traducir_es_en (translate e) (PyStr t)) = Inr (PyStr t')" using a by blast
  have lim: "limpiar_texto (PyStr t') = t'" using a by blast
  show "verdict (analizar_sentimiento e c) = verdict (sa_analizar_sentimiento e c)"
  proof (cases "t = []")
    case True
    then show ?thesis unfolding c
      by (simp add: analizar_sentimiento_def analizar_body_def sa_analizar_sentimiento_def
            sa_analizar_body_def neutral_verdict)
  next
    case False
    have sa: "sa_traducir_es_en (translate e) (PyStr t) = Inr (PyStr t')"
    proof (cases "tiene_espanol t")
      case True
      then have "1 < length (split t)" using a by blast
      then show ?thesis using app True False
        by (cases "translate e t")
           (simp_all add: traducir_es_en_def sa_traducir_es_en_def sa_traducir_body_def)
    next
      case False
      then show ?thesis using app \<open>t \<noteq> []\<close>
        by (simp add: traducir_es_en_def sa_traducir_es_en_def sa_traducir_body_def)
    qed
    show ?thesis
      unfolding c using False
      by (cases "polarity_scores e t'")
         (simp_all add: analizar_sentimiento_def analizar_body_def sa_analizar_sentimiento_def
            sa_analizar_body_def app sa lim neutral_verdict verdict_def del: limpiar_texto.simps)
  qed
qed

theorem entry_points_agree_on_same_scored_text_witness:
  "verdict (analizar_sentimiento lexicon_env PyNone) = (0, 1, 0, 0, ''Neutro'')
   \<and> verdict (sa_analizar_sentimiento lexicon_env PyNone) = (0, 1, 0, 0, ''Neutro'')
   \<and> verdict (analizar_sentimiento lexicon_env (PyStr ''good bus''))
     = verdict (sa_analizar_sentimiento lexicon_env (PyStr ''good bus''))
   \<and> verdict (analizar_sentimiento lexicon_env (PyStr ''el bus''))
     = verdict (sa_analizar_sentimiento lexicon_env (PyStr ''el bus''))"
proof -
  have n: "verdict (analizar_sentimiento lexicon_env PyNone) = (0, 1, 0, 0, ''Neutro'')
           \<and> verdict (sa_analizar_sentimiento lexicon_env PyNone) = (0, 1, 0, 0, ''Neutro'')"
    using entry_points_agree_on_same_scored_text [of PyNone lexicon_env] by simp
  have g: "verdict (analizar_sentimiento lexicon_env (PyStr ''good bus''))
           = verdict (sa_analizar_sentimiento lexicon_env (PyStr ''good bus''))"
    using entry_points_agree_on_same_scored_text [of "PyStr ''good bus''" lexicon_env]
          good_bus_no_stop_word good_bus_translated good_bus_clean
    by blast
  have b: "verdict (analizar_sentimiento lexicon_env (PyStr ''el bus''))
           = verdict (sa_analizar_sentimiento lexicon_env (PyStr ''el bus''))"
    using entry_points_agree_on_same_scored_text [of "PyStr ''el bus''" lexicon_env]
          el_bus_tokens el_bus_translated the_bus_clean
    by blast
  show ?thesis using n g b by blast
qed

text \<open>
  Two texts on which they differ. On ":)" app.py scores the text itself and
  smartcities_analysis.py what \<open>limpiar_texto\<close> leaves of it, the empty string. The one-token
  text "excelente" holds a stop word: smartcities_analysis.py translates it and app.py
  does not.
\<close>

theorem entry_points_disagree:
  "verdict (analizar_sentimiento lexicon_env (PyStr '':)''))
     = (0, 0, 1, 4588 / 10000, ''Positivo'')
   \<and> verdict (sa_analizar_sentimiento lexicon_env (PyStr '':)''))
     = (0, 1, 0, 0, ''Neutro'')
   \<and> verdict (analizar_sentimiento lexicon_env (PyStr ''excelente''))
     = (0, 1, 0, 0, ''Neutro'')
   \<and> verdict (sa_analizar_sentimiento lexicon_env (PyStr ''excelente''))
     = (0, 0, 1, 4588 / 10000, ''Positivo'')"
  by code_simp

end
